theory Spec2Isabelle
  imports Complex_Main
begin

section \<open>Python strings\<close>

text \<open>
  A Python \<open>str\<close> is a sequence of Unicode code points; it is modelled as a list of
  natural numbers, one per code point.  ASCII literals are written through \<open>asc\<close>.
\<close>

type_synonym pystr = "nat list"

definition asc :: "string \<Rightarrow> pystr" where
  "asc s = map of_char s"

text \<open>The code points for which \<open>str.isspace\<close> holds; \<open>str.strip()\<close> and the
  regular expression class \<open>\s\<close> both use this set.\<close>

definition is_space :: "nat \<Rightarrow> bool" where
  "is_space c = (c \<in> set [9, 10, 11, 12, 13, 28, 29, 30, 31, 32, 133, 160, 5760,
     8192, 8193, 8194, 8195, 8196, 8197, 8198, 8199, 8200, 8201, 8202,
     8232, 8233, 8239, 8287, 12288])"

text \<open>\<open>s.strip(chars)\<close> and \<open>s.strip()\<close>.\<close>

definition strip_where :: "(nat \<Rightarrow> bool) \<Rightarrow> pystr \<Rightarrow> pystr" where
  "strip_where p s = rev (dropWhile p (rev (dropWhile p s)))"

definition strip_chars :: "pystr \<Rightarrow> pystr \<Rightarrow> pystr" where
  "strip_chars chars s = strip_where (\<lambda>c. c \<in> set chars) s"

definition py_strip :: "pystr \<Rightarrow> pystr" where
  "py_strip s = strip_where is_space s"

text \<open>\<open>s.startswith(p)\<close>, \<open>s.find(sub, start)\<close> (\<open>-1\<close> when absent) and
  \<open>sub in s\<close>.\<close>

fun startswith :: "pystr \<Rightarrow> pystr \<Rightarrow> bool" where
  "startswith s [] = True"
| "startswith [] (p # ps) = False"
| "startswith (c # cs) (p # ps) = (c = p \<and> startswith cs ps)"

fun find_at :: "pystr \<Rightarrow> pystr \<Rightarrow> nat \<Rightarrow> int" where
  "find_at sub [] i = (if sub = [] then int i else -1)"
| "find_at sub (c # cs) i =
     (if startswith (c # cs) sub then int i else find_at sub cs (Suc i))"

definition py_find :: "pystr \<Rightarrow> pystr \<Rightarrow> nat \<Rightarrow> int" where
  "py_find s sub start =
     (if length s < start then -1 else find_at sub (drop start s) start)"

definition py_in :: "pystr \<Rightarrow> pystr \<Rightarrow> bool" where
  "py_in sub s = (py_find s sub 0 \<noteq> -1)"

text \<open>\<open>s[a:b]\<close> for \<open>0 \<le> a\<close> and \<open>0 \<le> b\<close>.\<close>

definition slice :: "pystr \<Rightarrow> nat \<Rightarrow> nat \<Rightarrow> pystr" where
  "slice s a b = take (b - a) (drop a s)"

text \<open>\<open>s.split(sep)\<close> for a separator that is a single code point.\<close>

fun split_char :: "nat \<Rightarrow> pystr \<Rightarrow> pystr list" where
  "split_char sep [] = [[]]"
| "split_char sep (c # cs) =
     (if c = sep then [] # split_char sep cs
      else (case split_char sep cs of
              [] \<Rightarrow> [[c]]
            | p # ps \<Rightarrow> (c # p) # ps))"

text \<open>
  \<open>str.lower\<close> follows the Unicode case tables, which are no part of the repository:
  every function that lower-cases takes the lower-casing function as its first argument,
  and the theorems hold for each such function.  \<open>ascii_lower\<close> is what \<open>str.lower\<close>
  does on ASCII text; it instantiates the argument in the concrete examples.
\<close>

definition ascii_lower :: "pystr \<Rightarrow> pystr" where
  "ascii_lower s = map (\<lambda>c. if 65 \<le> c \<and> c \<le> 90 then c + 32 else c) s"

section \<open>Label normalisation and scoring\<close>

datatype py_error =
    ZeroDivisionError | TypeError | AttributeError | KeyError | JSONDecodeError | ValueError
  | RecursionError | ServiceError

text \<open>The characters of the argument of \<open>strip\<close>: full stop, comma, fullwidth
  comma (U+FF0C), ideographic full stop (U+3002), space, tab.\<close>

definition punctuation :: pystr where
  "punctuation = [46, 44, 65292, 12290, 32, 9]"

text \<open>The set comprehension
  \<^verbatim>\<open>{d.strip(punctuation).lower() for d in ds if d}\<close>
  that \<open>calculate_overlap\<close> and \<open>analyze_differences\<close> share.\<close>

definition normalize :: "(pystr \<Rightarrow> pystr) \<Rightarrow> pystr \<Rightarrow> pystr" where
  "normalize lower d = lower (strip_chars punctuation d)"

definition label_set :: "(pystr \<Rightarrow> pystr) \<Rightarrow> pystr list \<Rightarrow> pystr set" where
  "label_set lower ds = set (map (normalize lower) (filter (\<lambda>d. d \<noteq> []) ds))"

text \<open>Python's true division raises on a zero divisor.\<close>

definition py_div :: "real \<Rightarrow> real \<Rightarrow> py_error + real" where
  "py_div a b = (if b = 0 then Inl ZeroDivisionError else Inr (a / b))"

text \<open>
  \<open>calculate_overlap\<close> (main.py) returns either the bare float \<open>0.0\<close> or a dictionary
  with the four keys \<open>score\<close>, \<open>overlap_diseases\<close>, \<open>missed_diseases\<close>,
  \<open>extra_diseases\<close>.  The three lists are built by \<open>list(...)\<close> from sets, in an
  order Python does not fix; they are kept as sets.
\<close>

record overlap_dict =
  score :: real
  overlap_diseases :: "pystr set"
  missed_diseases :: "pystr set"
  extra_diseases :: "pystr set"

datatype overlap_result = Bare real | Dict overlap_dict

definition calculate_overlap ::
  "(pystr \<Rightarrow> pystr) \<Rightarrow> pystr list \<Rightarrow> pystr list \<Rightarrow> py_error + overlap_result" where
  "calculate_overlap lower predicted_diseases ground_truth =
     (if predicted_diseases = [] \<or> ground_truth = [] then Inr (Bare 0)
      else
        let pred_set = label_set lower predicted_diseases;
            truth_set = label_set lower ground_truth
        in if pred_set = {} \<or> truth_set = {} then Inr (Bare 0)
           else
             let overlap = pred_set \<inter> truth_set;
                 union = pred_set \<union> truth_set
             in case py_div (real (card overlap)) (real (card union)) of
                  Inl e \<Rightarrow> Inl e
                | Inr q \<Rightarrow> Inr (Dict \<lparr>score = q,
                                     overlap_diseases = overlap,
                                     missed_diseases = truth_set - pred_set,
                                     extra_diseases = pred_set - truth_set\<rparr>))"

text \<open>The overlap score a result carries: the float itself, or the \<open>score\<close> entry.\<close>

fun overlap_score :: "py_error + overlap_result \<Rightarrow> real option" where
  "overlap_score (Inl e) = None"
| "overlap_score (Inr (Bare x)) = Some x"
| "overlap_score (Inr (Dict d)) = Some (score d)"

text \<open>The subscript \<open>overlap_result['score']\<close> at the call site: a float has no
  subscript, and Python raises \<open>TypeError\<close>.\<close>

fun subscript_score :: "overlap_result \<Rightarrow> py_error + real" where
  "subscript_score (Bare x) = Inl TypeError"
| "subscript_score (Dict d) = Inr (score d)"

text \<open>
  \<open>PromptOptimizer.analyze_differences\<close>.  The divisors are \<open>max(len(...), 1)\<close>, at
  least one by construction, so the quotient is written directly.
\<close>

record difference_report =
  missed_diagnoses :: "pystr set"
  wrong_diagnoses :: "pystr set"
  correct_diagnoses :: "pystr set"
  accuracy :: real
  precision :: real

definition analyze_differences ::
  "(pystr \<Rightarrow> pystr) \<Rightarrow> pystr list \<Rightarrow> pystr list \<Rightarrow> difference_report" where
  "analyze_differences lower predicted ground_truth =
     (let pred_set = label_set lower predicted;
          truth_set = label_set lower ground_truth;
          missed = truth_set - pred_set;
          extra = pred_set - truth_set;
          correct = pred_set \<inter> truth_set
      in \<lparr>missed_diagnoses = missed,
          wrong_diagnoses = extra,
          correct_diagnoses = correct,
          accuracy = (if truth_set \<noteq> {}
                      then real (card correct) / real (max (card truth_set) 1) else 0),
          precision = (if pred_set \<noteq> {}
                       then real (card correct) / real (max (card pred_set) 1) else 0)\<rparr>)"


section \<open>JSON values\<close>

text \<open>
  The values \<open>json.loads\<close> returns: \<open>None\<close>, \<open>bool\<close>, \<open>int\<close>, \<open>float\<close> (with the
  non-finite values the decoder accepts), \<open>str\<close>, \<open>list\<close> and \<open>dict\<close>.  A dictionary is
  an association list under \<open>map_of\<close>.
\<close>

datatype pyfloat = Finite real | NaN | Infinity | NegInfinity

datatype json =
    JNull
  | JBool bool
  | JInt int
  | JFloat pyfloat
  | JStr pystr
  | JArr "json list"
  | JObj "(pystr \<times> json) list"

text \<open>Truth value of a Python object, as \<open>if d\<close> tests it.\<close>

fun truthy :: "json \<Rightarrow> bool" where
  "truthy JNull = False"
| "truthy (JBool b) = b"
| "truthy (JInt n) = (n \<noteq> 0)"
| "truthy (JFloat x) = (x \<noteq> Finite 0)"
| "truthy (JStr s) = (s \<noteq> [])"
| "truthy (JArr xs) = (xs \<noteq> [])"
| "truthy (JObj kvs) = (kvs \<noteq> [])"

text \<open>
  \<open>str(v)\<close>: a string is itself; for every other value Python prints its \<open>repr\<close>, which
  is taken as the argument \<open>repr\<close>.
\<close>

fun py_str :: "(json \<Rightarrow> pystr) \<Rightarrow> json \<Rightarrow> pystr" where
  "py_str repr (JStr s) = s"
| "py_str repr v = repr v"

definition has_key :: "(pystr \<times> json) list \<Rightarrow> pystr \<Rightarrow> bool" where
  "has_key kvs k = (map_of kvs k \<noteq> None)"

definition diseases_key :: pystr where
  "diseases_key = asc ''diseases''"

definition error_key :: pystr where
  "error_key = asc ''error''"

section \<open>The response parser\<close>

text \<open>
  \<open>PromptOptimizer.extract_diseases_from_response\<close>.  The decoder \<open>json.loads\<close> is the
  argument \<open>loads\<close>; \<open>None\<close> stands for an exception it raises.  The method has a
  handler for \<open>JSONDecodeError\<close> and one for every other exception, and both return the
  empty list, so the exceptions of the decoder need not be told apart here.
\<close>

definition fence :: pystr where
  "fence = [96, 96, 96]"

definition clean_response :: "pystr \<Rightarrow> pystr" where
  "clean_response response =
     (let cleaned_response = py_strip response
      in if startswith cleaned_response fence then
           let first_marker = py_find cleaned_response fence 0
           in if first_marker \<noteq> -1 then
                let content_start = nat (py_find cleaned_response [10] (nat first_marker) + 1);
                    end_marker = py_find cleaned_response fence content_start
                in if end_marker \<noteq> -1
                   then py_strip (slice cleaned_response content_start (nat end_marker))
                   else cleaned_response
              else cleaned_response
         else cleaned_response)"

text \<open>The list comprehension
  \<^verbatim>\<open>[str(d).strip() for d in diseases if d and str(d).strip()]\<close>.\<close>

definition clean_names :: "(json \<Rightarrow> pystr) \<Rightarrow> json list \<Rightarrow> pystr list" where
  "clean_names repr diseases =
     map (\<lambda>d. py_strip (py_str repr d))
       (filter (\<lambda>d. truthy d \<and> py_strip (py_str repr d) \<noteq> []) diseases)"

text \<open>The body of the \<open>try\<close> block; \<open>Inl\<close> is a raised exception.\<close>

definition extract_diseases_try ::
  "(pystr \<Rightarrow> json option) \<Rightarrow> (json \<Rightarrow> pystr) \<Rightarrow> pystr \<Rightarrow> py_error + pystr list" where
  "extract_diseases_try loads repr response =
     (case loads (clean_response response) of
        None \<Rightarrow> Inl JSONDecodeError
      | Some result \<Rightarrow>
          (case result of
             JObj kvs \<Rightarrow>
               if has_key kvs error_key then Inr []
               else (case map_of kvs diseases_key of
                       Some (JArr diseases) \<Rightarrow> Inr (clean_names repr diseases)
                     | Some diseases \<Rightarrow>
                         if truthy diseases then Inr [py_strip (py_str repr diseases)]
                         else Inr []
                     | None \<Rightarrow> Inr [])
           | _ \<Rightarrow> Inr []))"

text \<open>Both handlers, \<open>except json.JSONDecodeError\<close> and \<open>except Exception\<close>, return the
  empty list.\<close>

definition extract_diseases_from_response ::
  "(pystr \<Rightarrow> json option) \<Rightarrow> (json \<Rightarrow> pystr) \<Rightarrow> pystr \<Rightarrow> pystr list" where
  "extract_diseases_from_response loads repr response =
     (case extract_diseases_try loads repr response of
        Inl e \<Rightarrow> []
      | Inr diseases \<Rightarrow> diseases)"

section \<open>The regular expression of the predictor client\<close>

text \<open>
  \<open>QwenAPI.predict\<close> searches the service's answer with
  \<^verbatim>\<open>\{[^{}]*"diseases"\s*:\s*\[[^\]]*\][^{}]*\}\<close>.
  The pattern is a sequence of single characters and of greedy stars over character
  classes; \<open>re_match\<close> is the backtracking matcher on such sequences (it returns the rest of
  the text behind the match), and \<open>re_search\<close> the leftmost match, which is
  \<open>re.findall(...)[0]\<close>.
\<close>

datatype atom = Chr nat | Star "nat \<Rightarrow> bool"

fun re_match :: "atom list \<Rightarrow> pystr \<Rightarrow> pystr option" where
  "re_match [] s = Some s"
| "re_match (Chr c # p) [] = None"
| "re_match (Chr c # p) (x # xs) = (if x = c then re_match p xs else None)"
| "re_match (Star f # p) [] = re_match p []"
| "re_match (Star f # p) (x # xs) =
     (if f x then (case re_match (Star f # p) xs of
                     Some r \<Rightarrow> Some r
                   | None \<Rightarrow> re_match p (x # xs))
      else re_match p (x # xs))"

fun re_search :: "atom list \<Rightarrow> pystr \<Rightarrow> pystr option" where
  "re_search p [] = (case re_match p [] of Some r \<Rightarrow> Some [] | None \<Rightarrow> None)"
| "re_search p (x # xs) =
     (case re_match p (x # xs) of
        Some r \<Rightarrow> Some (take (length (x # xs) - length r) (x # xs))
      | None \<Rightarrow> re_search p xs)"

definition not_brace :: "nat \<Rightarrow> bool" where
  "not_brace c = (c \<noteq> 123 \<and> c \<noteq> 125)"

definition json_pattern :: "atom list" where
  "json_pattern =
     [Chr 123, Star not_brace, Chr 34] @ map Chr diseases_key @
     [Chr 34, Star is_space, Chr 58, Star is_space, Chr 91, Star (\<lambda>c. c \<noteq> 93), Chr 93,
      Star not_brace, Chr 125]"

text \<open>
  The parser as the specification words it (section 4.2, steps 1 to 6): the fenced block
  marker is stripped; the text is parsed; on failure the smallest substring matching the
  shape \<open>{ ... "diseases": [ ... ] ... }\<close> is parsed instead; a single string is wrapped;
  the names are filtered; the empty list is the fallback.  It is compared with the parser
  of the source below.  A text has the shape when the pattern above matches all of it
  (\<open>re_full\<close>, the language of the pattern); the smallest substring is the shortest
  substring that has the shape, and the leftmost one among those of the same length.
  Steps 1 and 4 to 6 are taken to be what the source does.
\<close>

fun re_full :: "atom list \<Rightarrow> pystr \<Rightarrow> bool" where
  "re_full [] s = (s = [])"
| "re_full (Chr c # p) [] = False"
| "re_full (Chr c # p) (x # xs) = (x = c \<and> re_full p xs)"
| "re_full (Star f # p) [] = re_full p []"
| "re_full (Star f # p) (x # xs) = ((f x \<and> re_full (Star f # p) xs) \<or> re_full p (x # xs))"

text \<open>The prefixes of a text, shortest first, and its substrings, ordered by their start.\<close>

fun prefixes_of :: "pystr \<Rightarrow> pystr list" where
  "prefixes_of [] = [[]]"
| "prefixes_of (x # xs) = [] # map (\<lambda>p. x # p) (prefixes_of xs)"

fun substrings_of :: "pystr \<Rightarrow> pystr list" where
  "substrings_of [] = [[]]"
| "substrings_of (x # xs) = prefixes_of (x # xs) @ substrings_of xs"

text \<open>The first among the shortest texts of a list.\<close>

fun shortest :: "pystr list \<Rightarrow> pystr option" where
  "shortest [] = None"
| "shortest (m # ms) =
     (case shortest ms of
        None \<Rightarrow> Some m
      | Some b \<Rightarrow> if length m \<le> length b then Some m else Some b)"

definition smallest_shaped :: "pystr \<Rightarrow> pystr option" where
  "smallest_shaped s = shortest (filter (re_full json_pattern) (substrings_of s))"

definition spec_response_parser ::
  "(pystr \<Rightarrow> json option) \<Rightarrow> (json \<Rightarrow> pystr) \<Rightarrow> pystr \<Rightarrow> pystr list" where
  "spec_response_parser loads repr response =
     (let text = clean_response response;
          parsed = (case loads text of
                      Some result \<Rightarrow> Some result
                    | None \<Rightarrow> (case smallest_shaped text of
                                 None \<Rightarrow> None
                               | Some m \<Rightarrow> loads m))
      in case parsed of
           Some (JObj kvs) \<Rightarrow>
             if has_key kvs error_key then []
             else (case map_of kvs diseases_key of
                     Some (JArr diseases) \<Rightarrow> clean_names repr diseases
                   | Some diseases \<Rightarrow>
                       if truthy diseases then [py_strip (py_str repr diseases)] else []
                   | None \<Rightarrow> [])
         | _ \<Rightarrow> [])"

section \<open>The runtime: library functions and external services\<close>

record test_case =
  case_id :: pystr
  input_data :: json
  gt_data :: json

record analysis_result =
  result_case_id :: pystr
  predictions :: "pystr list"
  ground_truth_labels :: json
  differences :: difference_report
  analysis_report :: pystr

record iteration_summary =
  total_cases :: nat
  common_missed_diagnoses :: "pystr set"
  common_wrong_diagnoses :: "pystr set"

record iteration_data =
  iteration :: nat
  old_prompt :: pystr
  new_prompt :: pystr
  analysis_results :: "analysis_result list"
  summary :: iteration_summary

text \<open>An entry of \<open>case_analyses\<close>: case id, predictions, ground truth, missed diagnoses,
  wrong diagnoses, analysis report.\<close>

type_synonym case_analysis = "pystr \<times> pystr list \<times> json \<times> pystr set \<times> pystr set \<times> pystr"

record previous_analysis =
  prompt :: pystr
  case_analyses :: "case_analysis list"
  analysis_summary :: iteration_summary

text \<open>
  What the code takes from outside the repository.  \<open>str_lower\<close>, \<open>json_loads\<close>,
  \<open>json_dumps\<close> and \<open>value_repr\<close> are the library functions \<open>str.lower\<close>, \<open>json.loads\<close>,
  \<open>json.dumps(..., ensure_ascii=False, indent=2)\<close> and \<open>repr\<close>.  The decoder returns the
  value, or the exception it raises: \<open>JSONDecodeError\<close> on a text that is no JSON
  document, and also others, so \<open>ValueError\<close> on an integer literal longer than the
  interpreter's limit for the conversion of digit strings (4300 digits by default) and
  \<open>RecursionError\<close> on a document nested too deep.  The three services are the calls
  \<open>client.chat.completions.create(...).choices[0].message.content\<close> of the optimizer, the
  analyzer and the predictor: each takes the number of service calls made before it (so
  that a service may answer the same request differently each time) and the data its
  messages are built from, and returns the text, or \<open>None\<close> when the call raises.
\<close>

record runtime =
  str_lower :: "pystr \<Rightarrow> pystr"
  json_loads :: "pystr \<Rightarrow> py_error + json"
  json_dumps :: "json \<Rightarrow> pystr"
  value_repr :: "json \<Rightarrow> pystr"
  optimizer_service :: "nat \<Rightarrow> pystr \<Rightarrow> nat \<Rightarrow> previous_analysis option \<Rightarrow> pystr option"
  analyzer_service :: "nat \<Rightarrow> json \<Rightarrow> pystr list \<Rightarrow> json \<Rightarrow> difference_report \<Rightarrow> pystr option"
  predictor_service :: "nat \<Rightarrow> pystr \<Rightarrow> json \<Rightarrow> pystr option"

text \<open>The decoder inside a \<open>try\<close> block whose handlers do not tell its exceptions
  apart.\<close>

definition json_decoded :: "runtime \<Rightarrow> pystr \<Rightarrow> json option" where
  "json_decoded rt s = (case json_loads rt s of Inl e \<Rightarrow> None | Inr result \<Rightarrow> Some result)"

text \<open>
  \<open>DeepSeekAPI._make_api_call\<close> with its default of three attempts: the first answer is
  returned stripped; the third failure is raised.  The second component is the number of
  service calls made so far.
\<close>

definition make_api_call :: "(nat \<Rightarrow> pystr option) \<Rightarrow> nat \<Rightarrow> (py_error + pystr) \<times> nat" where
  "make_api_call service c =
     (case service c of
        Some content \<Rightarrow> (Inr (py_strip content), c + 1)
      | None \<Rightarrow>
          (case service (c + 1) of
             Some content \<Rightarrow> (Inr (py_strip content), c + 2)
           | None \<Rightarrow>
               (case service (c + 2) of
                  Some content \<Rightarrow> (Inr (py_strip content), c + 3)
                | None \<Rightarrow> (Inl ServiceError, c + 3))))"

section \<open>The optimizer client: skeleton validation\<close>

definition marker_task :: pystr where
  "marker_task = [12304, 20219, 21153, 35828, 26126, 12305]"

definition marker_rules :: pystr where
  "marker_rules = [12304, 37325, 35201, 35268, 21017, 12305]"

definition marker_requirements :: pystr where
  "marker_requirements = [12304, 36755, 20986, 35201, 27714, 12305]"

definition marker_format :: pystr where
  "marker_format = [12304, 36755, 20986, 26684, 24335, 12305]"

text \<open>\<open>DeepSeekAPI.generate_prompt\<close>: the candidate must hold the four section markers and
  split into five parts on the opening bracket U+3010.\<close>

definition ds_generate_prompt ::
  "runtime \<Rightarrow> pystr \<Rightarrow> nat \<Rightarrow> previous_analysis option \<Rightarrow> nat \<Rightarrow> pystr \<times> nat" where
  "ds_generate_prompt rt base_prompt iter previous c =
     (case make_api_call (\<lambda>k. optimizer_service rt k base_prompt iter previous) c of
        (Inl e, c') \<Rightarrow> (base_prompt, c')
      | (Inr content, c') \<Rightarrow>
          if \<not> list_all (\<lambda>section. py_in section content)
                 [marker_task, marker_rules, marker_requirements, marker_format]
          then (base_prompt, c')
          else if length (split_char 12304 content) \<noteq> 5 then (base_prompt, c')
          else (content, c'))"

text \<open>The two checks together.\<close>

definition valid_skeleton :: "pystr \<Rightarrow> bool" where
  "valid_skeleton content =
     (py_in marker_task content \<and> py_in marker_rules content \<and>
      py_in marker_requirements content \<and> py_in marker_format content \<and>
      length (split_char 12304 content) = 5)"

text \<open>\<open>DeepSeekAPI.analyze_results\<close>: the report, or the text U+5206 U+6790 U+5931 U+8D25
  when the call fails.\<close>

definition analysis_failed :: pystr where
  "analysis_failed = [20998, 26512, 22833, 36133]"

definition ds_analyze_results ::
  "runtime \<Rightarrow> json \<Rightarrow> pystr list \<Rightarrow> json \<Rightarrow> difference_report \<Rightarrow> nat \<Rightarrow> pystr \<times> nat" where
  "ds_analyze_results rt input preds truth report_diff c =
     (case make_api_call (\<lambda>k. analyzer_service rt k input preds truth report_diff) c of
        (Inl e, c') \<Rightarrow> (analysis_failed, c')
      | (Inr report, c') \<Rightarrow> (report, c'))"

section \<open>The predictor client\<close>

definition format_instruction :: pystr where
  "format_instruction = [
    10, 35831, 20005, 26684, 25353, 29031, 20197, 19979, 74, 83, 79, 78, 26684, 24335,
    36820, 22238, 32467, 26524, 65306, 10, 123, 10, 32, 32, 32, 32, 34, 100, 105, 115, 101,
    97, 115, 101, 115, 34, 58, 32, 91, 10, 32, 32, 32, 32, 32, 32, 32, 32, 34, 30142,
    30149, 49, 34, 44, 10, 32, 32, 32, 32, 32, 32, 32, 32, 34, 30142, 30149, 50, 34, 10,
    32, 32, 32, 32, 93, 10, 125, 10, 10, 26684, 24335, 35201, 27714, 65306, 10, 49, 46, 32,
    24517, 39035, 26159, 21512, 27861, 30340, 74, 83, 79, 78, 26684, 24335, 10, 50, 46, 32,
    100, 105, 115, 101, 97, 115, 101, 115, 25968, 32452, 24517, 39035, 23384, 22312, 65292,
    21363, 20351, 20026, 31354, 20063, 35201, 20445, 30041, 10, 51, 46, 32, 27599, 20010,
    30142, 30149, 21517, 31216, 24517, 39035, 26159, 38750, 31354, 23383, 31526, 20018, 10,
    52, 46, 32, 19981, 35201, 22312, 74, 83, 79, 78, 22806, 28155, 21152, 20219, 20309,
    27880, 37322, 25110, 35828, 26126, 10, 53, 46, 32, 19981, 35201, 20351, 29992, 77, 97,
    114, 107, 100, 111, 119, 110, 20195, 30721, 22359, 10, 10, 31034, 20363, 36755, 20986,
    65306, 10, 123, 34, 100, 105, 115, 101, 97, 115, 101, 115, 34, 58, 32, 91, 34, 25903,
    27668, 31649, 28814, 34, 44, 32, 34, 32954, 27668, 32959, 34, 93, 125]"

definition empty_answer :: json where
  "empty_answer = JObj [(diseases_key, JArr [])]"

text \<open>The last part of \<open>QwenAPI.predict\<close>: the decoded answer is printed again as an object
  with the one key \<open>diseases\<close>.\<close>

definition standard_output :: "runtime \<Rightarrow> json \<Rightarrow> pystr" where
  "standard_output rt result =
     (case result of
        JObj kvs \<Rightarrow>
          (case map_of kvs diseases_key of
             Some (JArr diseases) \<Rightarrow>
               json_dumps rt (JObj [(diseases_key,
                 JArr (map JStr (clean_names (value_repr rt) diseases)))])
           | Some diseases \<Rightarrow>
               if truthy diseases
               then json_dumps rt (JObj [(diseases_key,
                      JArr [JStr (py_strip (py_str (value_repr rt) diseases))])])
               else json_dumps rt empty_answer
           | None \<Rightarrow> json_dumps rt empty_answer)
      | _ \<Rightarrow> json_dumps rt empty_answer)"

text \<open>The prompt sent to the service: the format instruction is added when the prompt
  does not mention \<open>diseases\<close>.\<close>

definition enhanced_prompt :: "pystr \<Rightarrow> pystr" where
  "enhanced_prompt prompt_text =
     (if \<not> py_in diseases_key prompt_text
      then prompt_text @ [10, 10] @ format_instruction else prompt_text)"

text \<open>
  \<open>QwenAPI.predict\<close>.  The answer is stripped of white space and decoded.  Only a
  \<open>JSONDecodeError\<close> of the decoder is handled by the inner \<open>try\<close> statement, which
  searches the stripped answer with the pattern and decodes the first match (a bare
  \<open>except\<close> catches every exception of that second decoding).  Every other exception of
  the first decoding reaches the outermost handler of the method, which prints the empty
  answer.
\<close>

definition predict :: "runtime \<Rightarrow> pystr \<Rightarrow> json \<Rightarrow> nat \<Rightarrow> pystr \<times> nat" where
  "predict rt prompt_text data c =
     (case predictor_service rt c (enhanced_prompt prompt_text) data of
        None \<Rightarrow> (json_dumps rt empty_answer, c + 1)
      | Some raw \<Rightarrow>
          let content = py_strip raw
          in (case json_loads rt content of
                Inr result \<Rightarrow> (standard_output rt result, c + 1)
              | Inl e \<Rightarrow>
                  if e = JSONDecodeError then
                    (case re_search json_pattern content of
                       Some m \<Rightarrow>
                         (case json_loads rt m of
                            Inr result \<Rightarrow> (standard_output rt result, c + 1)
                          | Inl e' \<Rightarrow> (json_dumps rt empty_answer, c + 1))
                     | None \<Rightarrow> (json_dumps rt empty_answer, c + 1))
                  else (json_dumps rt empty_answer, c + 1)))"

text \<open>
  \<open>PromptOptimizer.predict_diseases\<close>: up to \<open>max_retries\<close> attempts, the first non-empty
  list wins.  Neither \<open>predict\<close> nor the parser raises, so the handler of the loop body
  has no case here.
\<close>

fun predict_attempts ::
  "runtime \<Rightarrow> pystr \<Rightarrow> json \<Rightarrow> nat \<Rightarrow> nat \<Rightarrow> pystr list \<times> nat" where
  "predict_attempts rt prompt_text data 0 c = ([], c)"
| "predict_attempts rt prompt_text data (Suc n) c =
     (case predict rt prompt_text data c of
        (response, c') \<Rightarrow>
          let diseases =
                extract_diseases_from_response (json_decoded rt) (value_repr rt) response
          in if diseases \<noteq> [] then (diseases, c')
             else predict_attempts rt prompt_text data n c')"

definition predict_diseases :: "runtime \<Rightarrow> pystr \<Rightarrow> json \<Rightarrow> nat \<Rightarrow> pystr list \<times> nat" where
  "predict_diseases rt prompt_text data c = predict_attempts rt prompt_text data 3 c"

section \<open>The prompt optimizer\<close>

definition base_prompt_template :: pystr where
  "base_prompt_template = [
    20320, 26159, 19968, 20301, 25317, 26377, 51, 48, 24180, 20020, 24202, 32463, 39564,
    30340, 36164, 28145, 21307, 29983, 65292, 31934, 36890, 21508, 31181, 21307, 23398,
    24433, 20687, 30340, 35299, 35835, 21644, 30142, 30149, 35786, 26029, 12290, 35831,
    20005, 26684, 25353, 29031, 20197, 19979, 35201, 27714, 20998, 26512, 24739, 32773,
    30340, 24433, 20687, 25253, 21578, 65306, 10, 10, 12304, 20219, 21153, 35828, 26126,
    12305, 10, 20180, 32454, 20998, 26512, 36755, 20837, 30340, 21307, 23398, 24433, 20687,
    25968, 25454, 65292, 35782, 21035, 25152, 26377, 24322, 24120, 25551, 36848, 65292,
    32467, 21512, 20020, 24202, 32463, 39564, 21028, 26029, 21487, 33021, 30340, 30142,
    30149, 12290, 20320, 38656, 35201, 32508, 21512, 32771, 34385, 21508, 39033, 25351,
    26631, 20043, 38388, 30340, 30456, 20114, 20851, 31995, 65292, 32780, 19981, 26159,
    23396, 31435, 22320, 30475, 24453, 21333, 20010, 24322, 24120, 20540, 12290, 10, 10,
    12304, 37325, 35201, 35268, 21017, 12305, 10, 49, 46, 32, 21482, 36755, 20986, 26377,
    26126, 30830, 24322, 24120, 25903, 25345, 30340, 30142, 30149, 35786, 26029, 10, 50,
    46, 32, 22914, 26524, 25351, 26631, 22312, 27491, 24120, 33539, 22260, 20869, 25110,
    24322, 24120, 31243, 24230, 36731, 24494, 65292, 19981, 20316, 20026, 35786, 26029,
    20381, 25454, 10, 51, 46, 32, 20248, 20808, 32771, 34385, 24120, 35265, 30149, 12289,
    22810, 21457, 30149, 10, 52, 46, 32, 20351, 29992, 26631, 20934, 73, 67, 68, 45, 49,
    48, 30142, 30149, 21629, 21517, 65292, 20294, 19968, 23450, 19981, 35201, 36755, 20986,
    105, 99, 100, 45, 49, 48, 32534, 30721, 65292, 21482, 35768, 36755, 20986, 30142,
    30149, 21517, 31216, 10, 53, 46, 32, 24517, 39035, 20445, 35777, 36755, 20986, 26684,
    24335, 19981, 21464, 10, 10, 12304, 36755, 20986, 35201, 27714, 12305, 10, 49, 46, 32,
    24517, 39035, 20197, 32, 74, 83, 79, 78, 32, 26684, 24335, 36755, 20986, 65292, 21253,
    21547, 32, 100, 105, 115, 101, 97, 115, 101, 115, 32, 25968, 32452, 10, 50, 46, 32,
    19981, 35201, 36755, 20986, 20219, 20309, 35299, 37322, 24615, 25991, 23383, 10, 10,
    12304, 36755, 20986, 26684, 24335, 12305, 10, 123, 10, 32, 32, 32, 32, 34, 100, 105,
    115, 101, 97, 115, 101, 115, 34, 58, 32, 91, 34, 30142, 30149, 49, 34, 44, 32, 34,
    30142, 30149, 50, 34, 44, 32, 34, 30142, 30149, 51, 34, 93, 10, 125]"

text \<open>The object state: the two fields of \<open>PromptOptimizer\<close> that change, and the number
  of calls its three clients have made.\<close>

record optimizer =
  current_iteration :: nat
  optimization_history :: "iteration_data list"
  calls :: nat

definition new_optimizer :: optimizer where
  "new_optimizer = \<lparr>current_iteration = 0, optimization_history = [], calls = 0\<rparr>"

text \<open>\<open>case_data['gt_data'].get('diseases', [])\<close>: only a dictionary has \<open>get\<close>.\<close>

definition gt_diseases :: "json \<Rightarrow> py_error + json" where
  "gt_diseases gt =
     (case gt of
        JObj kvs \<Rightarrow> (case map_of kvs diseases_key of Some v \<Rightarrow> Inr v | None \<Rightarrow> Inr (JArr []))
      | _ \<Rightarrow> Inl AttributeError)"

text \<open>
  The elements \<open>d\<close> of \<open>for d in ground_truth if d\<close> that reach \<open>d.strip\<close>, when the
  ground truth is a decoded value: a list yields its true elements, which must be strings;
  a string yields its characters; a dictionary yields its keys; nothing else iterates.
\<close>

fun true_strings :: "json list \<Rightarrow> py_error + pystr list" where
  "true_strings [] = Inr []"
| "true_strings (d # ds) =
     (if \<not> truthy d then true_strings ds
      else (case d of
              JStr s \<Rightarrow> (case true_strings ds of Inl e \<Rightarrow> Inl e | Inr r \<Rightarrow> Inr (s # r))
            | _ \<Rightarrow> Inl AttributeError))"

definition iterate_labels :: "json \<Rightarrow> py_error + pystr list" where
  "iterate_labels v =
     (case v of
        JArr ds \<Rightarrow> true_strings ds
      | JStr s \<Rightarrow> Inr (map (\<lambda>c. [c]) s)
      | JObj kvs \<Rightarrow> Inr (map fst kvs)
      | _ \<Rightarrow> Inl TypeError)"

text \<open>\<open>PromptOptimizer.analyze_results\<close>; the result carries the number of service calls
  also when the analysis raises.\<close>

definition analyze_results ::
  "runtime \<Rightarrow> pystr \<Rightarrow> test_case \<Rightarrow> nat \<Rightarrow> (py_error + analysis_result) \<times> nat" where
  "analyze_results rt optimized_prompt cs c =
     (case predict_diseases rt optimized_prompt (input_data cs) c of
        (predicted, c1) \<Rightarrow>
          (case gt_diseases (gt_data cs) of
             Inl e \<Rightarrow> (Inl e, c1)
           | Inr gt \<Rightarrow>
               (case iterate_labels gt of
                  Inl e \<Rightarrow> (Inl e, c1)
                | Inr labels \<Rightarrow>
                    let report_diff = analyze_differences (str_lower rt) predicted labels
                    in (case ds_analyze_results rt (input_data cs) predicted gt report_diff c1 of
                          (report, c2) \<Rightarrow>
                            (Inr \<lparr>result_case_id = case_id cs,
                                  predictions = predicted,
                                  ground_truth_labels = gt,
                                  differences = report_diff,
                                  analysis_report = report\<rparr>, c2)))))"


text \<open>
  The argument of \<open>generate_prompt\<close> is a dictionary whose keys may be absent (the
  source reads them with \<open>get\<close> and a default); the empty dictionary has none.
\<close>

record optimization_context =
  ctx_base_prompt :: "pystr option"
  ctx_all_cases :: "test_case list option"
  ctx_iteration :: "nat option"
  ctx_previous_results :: "(real \<times> nat) option"

definition empty_context :: "optimization_context \<Rightarrow> bool" where
  "empty_context ctx =
     (ctx_base_prompt ctx = None \<and> ctx_all_cases ctx = None \<and>
      ctx_iteration ctx = None \<and> ctx_previous_results ctx = None)"

text \<open>\<open>context.get('iteration', self.current_iteration + 1)\<close>,
  \<open>context.get('base_prompt', self.base_prompt_template)\<close> and
  \<open>context.get('all_cases', [])\<close>.\<close>

definition context_iteration :: "optimization_context \<Rightarrow> optimizer \<Rightarrow> nat" where
  "context_iteration ctx opt =
     (case ctx_iteration ctx of Some i \<Rightarrow> i | None \<Rightarrow> current_iteration opt + 1)"

definition context_base_prompt :: "optimization_context \<Rightarrow> pystr" where
  "context_base_prompt ctx =
     (case ctx_base_prompt ctx of Some p \<Rightarrow> p | None \<Rightarrow> base_prompt_template)"

definition context_cases :: "optimization_context \<Rightarrow> test_case list" where
  "context_cases ctx = (case ctx_all_cases ctx of Some cs \<Rightarrow> cs | None \<Rightarrow> [])"

definition case_analysis_of :: "analysis_result \<Rightarrow> case_analysis" where
  "case_analysis_of r =
     (result_case_id r, predictions r, ground_truth_labels r,
      missed_diagnoses (differences r), wrong_diagnoses (differences r), analysis_report r)"

text \<open>
  The feedback for the optimizer: nothing in round 1, otherwise built from the last record
  of the history.  The outer \<open>None\<close> is one of the early returns of the base prompt (no
  history, or no case analysis in its last record).  The records of the history are
  typed, so the check of the three keys of the last record and the \<open>KeyError\<close> handler
  have no case here.
\<close>

definition build_feedback :: "nat \<Rightarrow> iteration_data list \<Rightarrow> previous_analysis option option" where
  "build_feedback cur history =
     (if cur = 1 then Some None
      else if history = [] then None
      else
        let last_iteration = last history;
            analyses = map case_analysis_of (analysis_results last_iteration)
        in if analyses = [] then None
           else Some (Some \<lparr>prompt = new_prompt last_iteration,
                             case_analyses = analyses,
                             analysis_summary = summary last_iteration\<rparr>))"

text \<open>The loop over the cases: a case whose analysis raises is skipped.\<close>

fun analyze_cases ::
  "runtime \<Rightarrow> pystr \<Rightarrow> test_case list \<Rightarrow> analysis_result list \<times> pystr set \<times> pystr set \<Rightarrow> nat
     \<Rightarrow> (analysis_result list \<times> pystr set \<times> pystr set) \<times> nat" where
  "analyze_cases rt optimized_prompt [] acc c = (acc, c)"
| "analyze_cases rt optimized_prompt (cs # rest) (results, total_missed, total_wrong) c =
     (case analyze_results rt optimized_prompt cs c of
        (Inl e, c') \<Rightarrow>
          analyze_cases rt optimized_prompt rest (results, total_missed, total_wrong) c'
      | (Inr a, c') \<Rightarrow>
          analyze_cases rt optimized_prompt rest
            (results @ [a],
             total_missed \<union> missed_diagnoses (differences a),
             total_wrong \<union> wrong_diagnoses (differences a)) c')"

text \<open>
  \<open>PromptOptimizer.generate_prompt\<close>.  Every operation outside the loop over the cases
  is total here, so the outermost handler (which returns the base prompt) has no case.
\<close>

definition generate_prompt ::
  "runtime \<Rightarrow> optimization_context \<Rightarrow> optimizer \<Rightarrow> pystr \<times> optimizer" where
  "generate_prompt rt ctx opt =
     (if empty_context ctx then (base_prompt_template, opt)
      else
        let cur = context_iteration ctx opt;
            opt1 = opt\<lparr>current_iteration := cur\<rparr>;
            base_prompt = context_base_prompt ctx;
            all_cases = context_cases ctx
        in if all_cases = [] then (base_prompt, opt1)
           else
             (case build_feedback cur (optimization_history opt1) of
                None \<Rightarrow> (base_prompt, opt1)
              | Some previous \<Rightarrow>
                  (case ds_generate_prompt rt base_prompt cur previous (calls opt1) of
                     (optimized_prompt, c1) \<Rightarrow>
                       let opt2 = opt1\<lparr>calls := c1\<rparr>
                       in if optimized_prompt = [] then (base_prompt, opt2)
                          else if \<not> py_in marker_rules optimized_prompt then (base_prompt, opt2)
                          else
                            (case analyze_cases rt optimized_prompt all_cases ([], {}, {}) c1 of
                               ((results, total_missed, total_wrong), c2) \<Rightarrow>
                                 let opt3 = opt2\<lparr>calls := c2\<rparr>
                                 in if results = [] then (base_prompt, opt3)
                                    else
                                      (optimized_prompt,
                                       opt3\<lparr>optimization_history :=
                                         optimization_history opt3 @
                                           [\<lparr>iteration = cur,
                                             old_prompt = base_prompt,
                                             new_prompt = optimized_prompt,
                                             analysis_results = results,
                                             summary =
                                               \<lparr>total_cases = length all_cases,
                                                common_missed_diagnoses = total_missed,
                                                common_wrong_diagnoses = total_wrong\<rparr>\<rparr>]\<rparr>)))))"

text \<open>
  The failing invocations of \<open>generate_prompt\<close>, as C10 lists them: an empty context, no
  case, no usable history in a round after the first, an optimizer output that is empty
  or lacks the rules marker, or no case analysed.
\<close>

definition generation_fails :: "runtime \<Rightarrow> optimization_context \<Rightarrow> optimizer \<Rightarrow> bool" where
  "generation_fails rt ctx opt =
     (empty_context ctx \<or> context_cases ctx = [] \<or>
      (case build_feedback (context_iteration ctx opt) (optimization_history opt) of
         None \<Rightarrow> True
       | Some previous \<Rightarrow>
           (case ds_generate_prompt rt (context_base_prompt ctx) (context_iteration ctx opt)
                   previous (calls opt) of
              (optimized_prompt, c1) \<Rightarrow>
                optimized_prompt = [] \<or> \<not> py_in marker_rules optimized_prompt \<or>
                fst (fst (analyze_cases rt optimized_prompt (context_cases ctx)
                            ([], {}, {}) c1)) = [])))"

section \<open>Progress classification\<close>

datatype progress_status = NoProgress | Improving | Stagnating | Unstable

record progress =
  status :: progress_status
  best_iteration :: nat
  best_accuracy :: real
  accuracy_trend :: "real list"

text \<open>The mean accuracy of a round.\<close>

definition avg_accuracy :: "iteration_data \<Rightarrow> real" where
  "avg_accuracy it =
     (let accs = map (\<lambda>r. accuracy (differences r)) (analysis_results it)
      in if 0 < length accs then sum_list accs / real (length accs) else 0)"

fun best_of :: "real list \<Rightarrow> nat \<Rightarrow> real \<times> nat \<Rightarrow> real \<times> nat" where
  "best_of [] i best = best"
| "best_of (a # as) i (best_acc, best_it) =
     best_of as (i + 1) (if best_acc < a then (a, i) else (best_acc, best_it))"

text \<open>
  The trend is classified with \<open>accuracy_trend[-1] > accuracy_trend[-2]\<close> and with the
  two differences at the indices of \<open>range(len - 1, len - 3, -1)\<close>.  The floats of the
  source are real numbers here, and \<open>0.01\<close> is one hundredth.
\<close>

definition is_improving :: "real list \<Rightarrow> bool" where
  "is_improving t = (2 \<le> length t \<and> t ! (length t - 2) < t ! (length t - 1))"

definition is_stagnating :: "real list \<Rightarrow> bool" where
  "is_stagnating t =
     (3 \<le> length t \<and>
      list_all (\<lambda>i. \<bar>t ! i - t ! (i - 1)\<bar> < 1 / 100) [length t - 1, length t - 2])"

definition trend_status :: "real list \<Rightarrow> progress_status" where
  "trend_status t =
     (if is_improving t then Improving
      else if is_stagnating t then Stagnating
      else Unstable)"

definition evaluate_optimization_progress :: "optimizer \<Rightarrow> progress" where
  "evaluate_optimization_progress opt =
     (if optimization_history opt = []
      then \<lparr>status = NoProgress, best_iteration = 0, best_accuracy = 0, accuracy_trend = []\<rparr>
      else
        let trend = map avg_accuracy (optimization_history opt);
            best = best_of trend 1 (0, 0)
        in \<lparr>status = trend_status trend,
            best_iteration = snd best,
            best_accuracy = fst best,
            accuracy_trend = trend\<rparr>)"


section \<open>The optimization loop\<close>

text \<open>\<open>process_input_data\<close> (main.py); its handler returns the empty list, and nothing in
  its body raises.\<close>

definition stripped_strings :: "(json \<Rightarrow> pystr) \<Rightarrow> json list \<Rightarrow> pystr list" where
  "stripped_strings repr ds =
     map (\<lambda>d. py_strip (py_str repr d)) (filter (\<lambda>d. d \<noteq> JNull) ds)"

definition process_input_data :: "(json \<Rightarrow> pystr) \<Rightarrow> json \<Rightarrow> pystr list" where
  "process_input_data repr input =
     (case input of
        JNull \<Rightarrow> []
      | JArr ds \<Rightarrow> stripped_strings repr ds
      | JObj kvs \<Rightarrow>
          (case map_of kvs diseases_key of
             Some (JArr ds) \<Rightarrow> stripped_strings repr ds
           | Some JNull \<Rightarrow> []
           | Some d \<Rightarrow> [py_strip (py_str repr d)]
           | None \<Rightarrow> [])
      | _ \<Rightarrow> [])"

record main_state =
  best_prompt :: pystr
  best_avg_overlap :: real
  stagnation_count :: nat
  optimizer_obj :: optimizer

definition max_iterations :: nat where
  "max_iterations = 10"

definition initial_state :: main_state where
  "initial_state =
     \<lparr>best_prompt = base_prompt_template, best_avg_overlap = 0, stagnation_count = 0,
      optimizer_obj = new_optimizer\<rparr>"

text \<open>
  Step 1 of a round (the first \<open>try\<close> block of the loop body): the context is built with
  the first three cases, the prompt is generated, the progress is classified and the
  stagnation counter updated.  On stagnation from the third round in a row the entry
  \<open>all_cases\<close> of the context is assigned a longer prefix; the context as this step
  leaves it is returned last.  Neither \<open>generate_prompt\<close> nor the classification raises,
  so the handler of the block has no case.
\<close>

definition generation_step ::
  "runtime \<Rightarrow> test_case list \<Rightarrow> nat \<Rightarrow> main_state
     \<Rightarrow> pystr \<times> nat \<times> optimizer \<times> optimization_context" where
  "generation_step rt all_cases i st =
     (let context0 = \<lparr>ctx_base_prompt = Some (best_prompt st),
                       ctx_all_cases = Some (take 3 all_cases),
                       ctx_iteration = Some (i + 1),
                       ctx_previous_results = Some (best_avg_overlap st, i)\<rparr>
      in case generate_prompt rt context0 (optimizer_obj st) of
           (new_prompt_text, opt') \<Rightarrow>
             if status (evaluate_optimization_progress opt') = Stagnating then
               let count = stagnation_count st + 1
               in if 3 \<le> count then
                    let all_cases_used = min (length all_cases) (3 + count)
                    in (new_prompt_text, count, opt',
                        context0\<lparr>ctx_all_cases := Some (take all_cases_used all_cases)\<rparr>)
                  else (new_prompt_text, count, opt', context0)
             else (new_prompt_text, 0, opt', context0))"

text \<open>
  Step 2: the loop \<open>for case in all_cases\<close>.  For each case the log gets the case id with
  the overlap, or with \<open>None\<close> when the body raised (the source logs the failure and
  continues).
\<close>

record evaluation =
  total_overlap :: real
  total_files :: nat
  case_log :: "(pystr \<times> real option) list"

text \<open>The body of the \<open>try\<close> block up to \<open>overlap_result['score']\<close>.\<close>

definition case_score :: "runtime \<Rightarrow> pystr list \<Rightarrow> json \<Rightarrow> py_error + real" where
  "case_score rt predicted_diseases gt =
     (let processed_predictions =
            process_input_data (value_repr rt) (JArr (map JStr predicted_diseases));
          processed_gt = process_input_data (value_repr rt) gt
      in case calculate_overlap (str_lower rt) processed_predictions processed_gt of
           Inl e \<Rightarrow> Inl e
         | Inr overlap_result \<Rightarrow> subscript_score overlap_result)"

fun evaluate_cases ::
  "runtime \<Rightarrow> pystr \<Rightarrow> test_case list \<Rightarrow> evaluation \<Rightarrow> nat \<Rightarrow> evaluation \<times> nat" where
  "evaluate_cases rt new_prompt_text [] ev c = (ev, c)"
| "evaluate_cases rt new_prompt_text (cs # rest) ev c =
     (case predict_diseases rt new_prompt_text (input_data cs) c of
        (predicted_diseases, c') \<Rightarrow>
          (case case_score rt predicted_diseases (gt_data cs) of
             Inl e \<Rightarrow>
               evaluate_cases rt new_prompt_text rest
                 (ev\<lparr>case_log := case_log ev @ [(case_id cs, None)]\<rparr>) c'
           | Inr current_overlap \<Rightarrow>
               evaluate_cases rt new_prompt_text rest
                 \<lparr>total_overlap = total_overlap ev + current_overlap,
                  total_files = total_files ev + 1,
                  case_log = case_log ev @ [(case_id cs, Some current_overlap)]\<rparr> c'))"

datatype stop = PerfectOverlap | Stagnated

record round_report =
  round_number :: nat
  round_context :: optimization_context
  round_prompt :: pystr
  round_log :: "(pystr \<times> real option) list"
  avg_overlap :: real
  round_stagnation :: nat
  round_stop :: "stop option"

text \<open>
  One round: steps 1 and 2, the mean, the update of the best prompt on a strict
  improvement, and the two \<open>break\<close>s.  The files the source writes are left out.
\<close>

definition main_round ::
  "runtime \<Rightarrow> test_case list \<Rightarrow> nat \<Rightarrow> main_state \<Rightarrow> main_state \<times> round_report" where
  "main_round rt all_cases i st =
     (case generation_step rt all_cases i st of
        (new_prompt_text, count, opt', context1) \<Rightarrow>
          (case evaluate_cases rt new_prompt_text all_cases
                  \<lparr>total_overlap = 0, total_files = 0, case_log = []\<rparr> (calls opt') of
             (ev, c') \<Rightarrow>
               let avg = (if 0 < total_files ev
                          then total_overlap ev / real (total_files ev) else 0);
                   improved = (best_avg_overlap st < avg)
               in (\<lparr>best_prompt = (if improved then new_prompt_text else best_prompt st),
                    best_avg_overlap = (if improved then avg else best_avg_overlap st),
                    stagnation_count = count,
                    optimizer_obj = opt'\<lparr>calls := c'\<rparr>\<rparr>,
                   \<lparr>round_number = i + 1,
                    round_context = context1,
                    round_prompt = new_prompt_text,
                    round_log = case_log ev,
                    avg_overlap = avg,
                    round_stagnation = count,
                    round_stop = (if improved \<and> avg = 1 then Some PerfectOverlap
                                  else if 5 \<le> count then Some Stagnated
                                  else None)\<rparr>)))"

text \<open>\<open>for i in range(max_iterations)\<close>: the second number counts the rounds that are
  left.  The result is the final state and the reports of the rounds that ran.\<close>

fun main_loop ::
  "runtime \<Rightarrow> test_case list \<Rightarrow> nat \<Rightarrow> nat \<Rightarrow> main_state
     \<Rightarrow> main_state \<times> round_report list" where
  "main_loop rt all_cases i 0 st = (st, [])"
| "main_loop rt all_cases i (Suc n) st =
     (case main_round rt all_cases i st of
        (st', r) \<Rightarrow>
          if round_stop r \<noteq> None then (st', [r])
          else (case main_loop rt all_cases (i + 1) n st' of
                  (st'', rs) \<Rightarrow> (st'', r # rs)))"

definition main :: "runtime \<Rightarrow> test_case list \<Rightarrow> main_state \<times> round_report list" where
  "main rt all_cases = main_loop rt all_cases 0 max_iterations initial_state"


section \<open>Concrete inputs\<close>

text \<open>
  The library functions and services of the concrete examples.  \<open>example_loads\<close> is
  \<open>json.loads\<close> on the five JSON documents the examples decode; on the other texts of
  the examples \<open>json.loads\<close> raises, and \<open>example_json_loads\<close> gives the exception:
  \<open>ValueError\<close> on the text that begins with an integer literal of 4301 digits,
  \<open>JSONDecodeError\<close> on the others.  \<open>example_dumps\<close> prints the two answers of the
  examples as \<open>json.dumps(..., indent=2)\<close> does; \<open>repr\<close> is not reached in the examples.
  The optimizer service answers with the bare skeleton of four markers, the analyzer with
  a fixed text, and the predictor service always fails.  The theorems do not depend on
  them.
\<close>

definition text_blank_scalar :: pystr where
  "text_blank_scalar =
     asc ''{'' @ [34] @ asc ''diseases'' @ [34] @ asc '': '' @ [34, 32, 34] @ asc ''}''"

definition text_list_a :: pystr where
  "text_list_a =
     asc ''{'' @ [34] @ asc ''diseases'' @ [34] @ asc '': ['' @ [34, 97, 34] @ asc '']}''"

definition text_empty_answer :: pystr where
  "text_empty_answer =
     asc ''{'' @ [10, 32, 32, 34] @ asc ''diseases'' @ [34] @ asc '': []'' @ [10] @ asc ''}''"

definition text_list_a_indented :: pystr where
  "text_list_a_indented =
     asc ''{'' @ [10, 32, 32, 34] @ asc ''diseases'' @ [34] @ asc '': ['' @
     [10, 32, 32, 32, 32, 34, 97, 34, 10, 32, 32] @ asc '']'' @ [10] @ asc ''}''"

definition text_prefixed_answer :: pystr where
  "text_prefixed_answer = asc ''Answer: '' @ text_list_a"

text \<open>The document \<^verbatim>\<open>{"diseases": "a"}\<close>, and the same in a fenced block.\<close>

definition text_scalar_a :: pystr where
  "text_scalar_a =
     asc ''{'' @ [34] @ asc ''diseases'' @ [34] @ asc '': '' @ [34, 97, 34] @ asc ''}''"

definition text_fenced_scalar :: pystr where
  "text_fenced_scalar = fence @ [10] @ text_scalar_a @ [10] @ fence"

text \<open>The digit \<open>1\<close> 4301 times, a space and \<^verbatim>\<open>{"diseases": ["a"]}\<close>.\<close>

definition text_long_number :: pystr where
  "text_long_number = replicate 4301 49 @ [32] @ text_list_a"

text \<open>The text \<^verbatim>\<open>{"diseases": [{"diseases": ["a"]}\<close>.\<close>

definition text_nested_answer :: pystr where
  "text_nested_answer = asc ''{'' @ [34] @ asc ''diseases'' @ [34] @ asc '': ['' @ text_list_a"

definition example_loads :: "pystr \<Rightarrow> json option" where
  "example_loads s =
     (if s = text_blank_scalar then Some (JObj [(diseases_key, JStr [32])])
      else if s = text_scalar_a then Some (JObj [(diseases_key, JStr [97])])
      else if s = text_list_a then Some (JObj [(diseases_key, JArr [JStr [97]])])
      else if s = text_list_a_indented then Some (JObj [(diseases_key, JArr [JStr [97]])])
      else if s = text_empty_answer then Some (JObj [(diseases_key, JArr [])])
      else None)"

definition example_json_loads :: "pystr \<Rightarrow> py_error + json" where
  "example_json_loads s =
     (case example_loads s of
        Some result \<Rightarrow> Inr result
      | None \<Rightarrow> if s = text_long_number then Inl ValueError else Inl JSONDecodeError)"

definition example_dumps :: "json \<Rightarrow> pystr" where
  "example_dumps v =
     (if v = empty_answer then text_empty_answer
      else if v = JObj [(diseases_key, JArr [JStr [97]])] then text_list_a_indented
      else [])"

definition example_repr :: "json \<Rightarrow> pystr" where
  "example_repr v = asc ''?''"

definition skeleton :: pystr where
  "skeleton = marker_task @ marker_rules @ marker_requirements @ marker_format"

definition example_runtime :: runtime where
  "example_runtime =
     \<lparr>str_lower = ascii_lower,
      json_loads = example_json_loads,
      json_dumps = example_dumps,
      value_repr = example_repr,
      optimizer_service = (\<lambda>k base_prompt iter previous. Some skeleton),
      analyzer_service = (\<lambda>k input preds truth report. Some (asc ''report'')),
      predictor_service = (\<lambda>k prompt_text data. None)\<rparr>"

text \<open>The same runtime with an optimizer service whose answer lacks the markers.\<close>

definition careless_runtime :: runtime where
  "careless_runtime =
     example_runtime\<lparr>optimizer_service := (\<lambda>k base_prompt iter previous. Some (asc ''rules''))\<rparr>"

text \<open>The same runtime with an optimizer service whose answer is the skeleton in the
  first round and lacks the markers in every later round.\<close>

definition fickle_runtime :: runtime where
  "fickle_runtime =
     example_runtime\<lparr>optimizer_service :=
       (\<lambda>k base_prompt iter previous. if iter = 1 then Some skeleton else Some (asc ''rules''))\<rparr>"

text \<open>The same runtime with a predictor service that always gives the answer \<open>raw\<close>.\<close>

definition answering_runtime :: "pystr \<Rightarrow> runtime" where
  "answering_runtime raw =
     example_runtime\<lparr>predictor_service := (\<lambda>k prompt_text data. Some raw)\<rparr>"

definition example_case :: "nat \<Rightarrow> test_case" where
  "example_case n =
     \<lparr>case_id = [48 + n],
      input_data = JObj [(asc ''content'', JStr (asc ''scan''))],
      gt_data = JObj [(diseases_key, JArr [JStr (asc ''flu'')])]\<rparr>"

definition seven_cases :: "test_case list" where
  "seven_cases = map example_case [1, 2, 3, 4, 5, 6, 7]"

text \<open>A record of the history whose one case has the given accuracy.\<close>

definition example_round :: "real \<Rightarrow> iteration_data" where
  "example_round a =
     \<lparr>iteration = 1, old_prompt = skeleton, new_prompt = skeleton,
      analysis_results =
        [\<lparr>result_case_id = [49], predictions = [],
          ground_truth_labels = JArr [JStr (asc ''flu'')],
          differences = \<lparr>missed_diagnoses = {asc ''flu''}, wrong_diagnoses = {},
                         correct_diagnoses = {}, accuracy = a, precision = 0\<rparr>,
          analysis_report = asc ''report''\<rparr>],
      summary = \<lparr>total_cases = 1, common_missed_diagnoses = {asc ''flu''},
                 common_wrong_diagnoses = {}\<rparr>\<rparr>"

text \<open>The context of a first round over one case.\<close>

definition first_context :: optimization_context where
  "first_context =
     \<lparr>ctx_base_prompt = Some base_prompt_template,
      ctx_all_cases = Some [example_case 1],
      ctx_iteration = Some 1,
      ctx_previous_results = Some (0, 0)\<rparr>"


text \<open>
  The run of the loop on \<open>example_runtime\<close> and \<open>seven_cases\<close>: every prediction is
  empty, so every round has accuracy and overlap \<open>0\<close>.  \<open>example_state k\<close> is the state
  after \<open>k\<close> rounds (with the optimizer object \<open>example_optimizer k\<close>),
  \<open>example_context k\<close> the context round \<open>k + 1\<close> builds, and \<open>example_report k\<close> the
  report of round \<open>k\<close>.  A round makes
  34 service calls: one of the optimizer, three of the predictor and one of the analyzer
  for each of the three cases of the generation, three of the predictor for each of the
  seven cases of the evaluation.
\<close>

definition example_result :: "nat \<Rightarrow> analysis_result" where
  "example_result n =
     \<lparr>result_case_id = [48 + n], predictions = [],
      ground_truth_labels = JArr [JStr (asc ''flu'')],
      differences = \<lparr>missed_diagnoses = {asc ''flu''}, wrong_diagnoses = {},
                     correct_diagnoses = {}, accuracy = 0, precision = 0\<rparr>,
      analysis_report = asc ''report''\<rparr>"

definition example_record :: "nat \<Rightarrow> iteration_data" where
  "example_record k =
     \<lparr>iteration = k, old_prompt = base_prompt_template, new_prompt = skeleton,
      analysis_results = [example_result 1, example_result 2, example_result 3],
      summary = \<lparr>total_cases = 3, common_missed_diagnoses = {asc ''flu''},
                 common_wrong_diagnoses = {}\<rparr>\<rparr>"

definition example_optimizer :: "nat \<Rightarrow> optimizer" where
  "example_optimizer k =
     \<lparr>current_iteration = k, optimization_history = map example_record [1..<k + 1],
      calls = 34 * k\<rparr>"

definition example_context :: "nat \<Rightarrow> optimization_context" where
  "example_context k =
     \<lparr>ctx_base_prompt = Some base_prompt_template, ctx_all_cases = Some (take 3 seven_cases),
      ctx_iteration = Some (k + 1), ctx_previous_results = Some (0, k)\<rparr>"

definition example_state :: "nat \<Rightarrow> main_state" where
  "example_state k =
     \<lparr>best_prompt = base_prompt_template, best_avg_overlap = 0, stagnation_count = k - 2,
      optimizer_obj = example_optimizer k\<rparr>"

definition example_report :: "nat \<Rightarrow> round_report" where
  "example_report k =
     \<lparr>round_number = k,
      round_context =
        \<lparr>ctx_base_prompt = Some base_prompt_template,
         ctx_all_cases = Some (take (if 3 \<le> k - 2 then min 7 (3 + (k - 2)) else 3) seven_cases),
         ctx_iteration = Some k,
         ctx_previous_results = Some (0, k - 1)\<rparr>,
      round_prompt = skeleton,
      round_log = map (\<lambda>n. ([48 + n], None)) [1, 2, 3, 4, 5, 6, 7],
      avg_overlap = 0,
      round_stagnation = k - 2,
      round_stop = (if 5 \<le> k - 2 then Some Stagnated else None)\<rparr>"

text \<open>The feedback that the second round of that run builds from the record of the
  first.\<close>

definition example_feedback :: previous_analysis where
  "example_feedback =
     \<lparr>prompt = skeleton,
      case_analyses =
        map case_analysis_of [example_result 1, example_result 2, example_result 3],
      analysis_summary = \<lparr>total_cases = 3, common_missed_diagnoses = {asc ''flu''},
                           common_wrong_diagnoses = {}\<rparr>\<rparr>"

text \<open>The property of the states of the loop that the proofs carry along.\<close>

definition loop_invariant :: "main_state \<Rightarrow> bool" where
  "loop_invariant st = (best_avg_overlap st < 1 \<and> stagnation_count st < 5)"

section \<open>Properties of the scorer\<close>

lemma finite_label_set: "finite (label_set lower ds)"
  by (simp add: label_set_def)

lemma label_set_Nil: "label_set lower [] = {}"
  by (simp add: label_set_def)

lemma label_set_empty_iff: "label_set lower ds = {} \<longleftrightarrow> (\<forall>d. d \<in> set ds \<longrightarrow> d = [])"
  by (auto simp: label_set_def filter_empty_conv)

lemma card_Int_le_Un: "finite A \<Longrightarrow> finite B \<Longrightarrow> card (A \<inter> B) \<le> card (A \<union> B)"
  by (rule card_mono) auto

lemma calculate_overlap_cases:
  "calculate_overlap lower A B =
     (if A = [] \<or> B = [] \<or> label_set lower A = {} \<or> label_set lower B = {} then Inr (Bare 0)
      else Inr (Dict \<lparr>score = real (card (label_set lower A \<inter> label_set lower B))
                              / real (card (label_set lower A \<union> label_set lower B)),
                      overlap_diseases = label_set lower A \<inter> label_set lower B,
                      missed_diseases = label_set lower B - label_set lower A,
                      extra_diseases = label_set lower A - label_set lower B\<rparr>))"
  by (auto simp: calculate_overlap_def Let_def py_div_def finite_label_set)

lemma overlap_score_eq:
  "overlap_score (calculate_overlap lower A B) =
     Some (if A = [] \<or> B = [] \<or> label_set lower A = {} \<or> label_set lower B = {} then 0
           else real (card (label_set lower A \<inter> label_set lower B))
                  / real (card (label_set lower A \<union> label_set lower B)))"
  by (simp add: calculate_overlap_cases)

text \<open>Label sets of the concrete examples.\<close>

lemma label_set_Flu_dot: "label_set ascii_lower [asc ''Flu.''] = {asc ''flu''}"
  by (simp add: label_set_def normalize_def strip_chars_def strip_where_def
        punctuation_def asc_def ascii_lower_def)

lemma label_set_flu: "label_set ascii_lower [asc ''flu''] = {asc ''flu''}"
  by (simp add: label_set_def normalize_def strip_chars_def strip_where_def
        punctuation_def asc_def ascii_lower_def)

lemma label_set_cold: "label_set ascii_lower [asc ''cold''] = {asc ''cold''}"
  by (simp add: label_set_def normalize_def strip_chars_def strip_where_def
        punctuation_def asc_def ascii_lower_def)

lemma label_set_blank: "label_set lower [[]] = {}"
  by (simp add: label_set_def)

text \<open>
  C7, as the claim states it, fails on the code.  The list \<open>[""]\<close> is non-empty and equal
  to itself, yet its overlap with itself is \<open>0\<close>: the comprehension drops the empty
  string, and the guard on the empty set returns \<open>0.0\<close>.  The lists \<open>["Flu."]\<close> and
  \<open>["flu"]\<close> have no element in common, yet their overlap is \<open>1\<close>: the labels are
  compared after normalisation.
\<close>

theorem calculate_overlap_lists_counterexample:
  "[[]] = [[]::pystr] \<and> [[]::pystr] \<noteq> [] \<and>
   overlap_score (calculate_overlap ascii_lower [[]] [[]]) = Some 0 \<and>
   set [asc ''Flu.''] \<inter> set [asc ''flu''] = {} \<and>
   overlap_score (calculate_overlap ascii_lower [asc ''Flu.''] [asc ''flu'']) = Some 1"
  by (simp add: overlap_score_eq label_set_Flu_dot label_set_flu label_set_blank)
     (simp add: asc_def)

text \<open>
  C7 (amended): for every pair of label lists \<open>A\<close>, \<open>B\<close> and every lower-casing
  function, \<open>calculate_overlap\<close> returns without raising (its divisor is never zero);
  the overlap score is symmetric and lies in \<open>[0, 1]\<close>; it is \<open>1\<close> when the normalised
  label sets are equal and non-empty, in particular when \<open>A = B\<close> and \<open>A\<close> holds a
  string that is not empty; it is \<open>0\<close> when either list is empty or the normalised label
  sets are disjoint (which covers a list that normalises to the empty set).
\<close>

theorem calculate_overlap_score_properties:
  "(\<exists>r. calculate_overlap lower A B = Inr r) \<and>
   overlap_score (calculate_overlap lower A B) = overlap_score (calculate_overlap lower B A) \<and>
   (\<exists>x. overlap_score (calculate_overlap lower A B) = Some x \<and> 0 \<le> x \<and> x \<le> 1) \<and>
   (label_set lower A = label_set lower B \<and> label_set lower A \<noteq> {} \<longrightarrow>
      overlap_score (calculate_overlap lower A B) = Some 1) \<and>
   (A = B \<and> (\<exists>d. d \<in> set A \<and> d \<noteq> []) \<longrightarrow>
      overlap_score (calculate_overlap lower A B) = Some 1) \<and>
   (A = [] \<or> B = [] \<or> label_set lower A \<inter> label_set lower B = {} \<longrightarrow>
      overlap_score (calculate_overlap lower A B) = Some 0)"
proof (intro conjI)
  show "\<exists>r. calculate_overlap lower A B = Inr r"
    by (simp add: calculate_overlap_cases)
  show "overlap_score (calculate_overlap lower A B) = overlap_score (calculate_overlap lower B A)"
    by (auto simp: overlap_score_eq Int_commute Un_commute)
  have "real (card (label_set lower A \<inter> label_set lower B))
          \<le> real (card (label_set lower A \<union> label_set lower B))"
    using card_Int_le_Un [OF finite_label_set finite_label_set] by simp
  then show "\<exists>x. overlap_score (calculate_overlap lower A B) = Some x \<and> 0 \<le> x \<and> x \<le> 1"
    by (auto simp: overlap_score_eq divide_le_eq_1 card_gt_0_iff finite_label_set)
  show same: "label_set lower A = label_set lower B \<and> label_set lower A \<noteq> {} \<longrightarrow>
      overlap_score (calculate_overlap lower A B) = Some 1"
    by (auto simp: overlap_score_eq label_set_Nil finite_label_set)
  show "A = B \<and> (\<exists>d. d \<in> set A \<and> d \<noteq> []) \<longrightarrow>
      overlap_score (calculate_overlap lower A B) = Some 1"
  proof
    assume h: "A = B \<and> (\<exists>d. d \<in> set A \<and> d \<noteq> [])"
    then have "label_set lower A \<noteq> {}" by (auto simp: label_set_empty_iff)
    with h same show "overlap_score (calculate_overlap lower A B) = Some 1" by simp
  qed
  show "A = [] \<or> B = [] \<or> label_set lower A \<inter> label_set lower B = {} \<longrightarrow>
      overlap_score (calculate_overlap lower A B) = Some 0"
    by (auto simp: overlap_score_eq)
qed

theorem calculate_overlap_score_properties_witness:
  "label_set ascii_lower [asc ''Flu.''] = label_set ascii_lower [asc ''flu''] \<and>
   label_set ascii_lower [asc ''Flu.''] \<noteq> {} \<and>
   overlap_score (calculate_overlap ascii_lower [asc ''Flu.''] [asc ''flu'']) = Some 1 \<and>
   label_set ascii_lower [asc ''flu''] \<inter> label_set ascii_lower [asc ''cold''] = {} \<and>
   overlap_score (calculate_overlap ascii_lower [asc ''flu''] [asc ''cold'']) = Some 0"
proof -
  have eq: "label_set ascii_lower [asc ''Flu.''] = label_set ascii_lower [asc ''flu'']"
    by (simp add: label_set_Flu_dot label_set_flu)
  have ne: "label_set ascii_lower [asc ''Flu.''] \<noteq> {}"
    by (simp add: label_set_Flu_dot)
  have dj: "label_set ascii_lower [asc ''flu''] \<inter> label_set ascii_lower [asc ''cold''] = {}"
    unfolding label_set_flu label_set_cold by (simp add: asc_def)
  show ?thesis
    using eq ne dj
      calculate_overlap_score_properties [of ascii_lower "[asc ''Flu.'']" "[asc ''flu'']"]
      calculate_overlap_score_properties [of ascii_lower "[asc ''flu'']" "[asc ''cold'']"]
    by blast
qed

text \<open>
  C8, as the claim states it, fails on the code: with no prediction and no truth label
  the two normalised sets are equal (both empty), and accuracy and precision are both
  \<open>0\<close>, by the guards \<open>if truth_set else 0\<close> and \<open>if pred_set else 0\<close>.
\<close>

theorem analyze_differences_empty_counterexample:
  "label_set ascii_lower [] = label_set ascii_lower [] \<and>
   accuracy (analyze_differences ascii_lower [] []) = 0 \<and>
   precision (analyze_differences ascii_lower [] []) = 0"
  by (simp add: analyze_differences_def label_set_def)

text \<open>
  C8 (amended): for every pair of label lists, accuracy is
  \<open>|correct| / max(|truth|, 1)\<close> and precision is \<open>|correct| / max(|pred|, 1)\<close> over
  the normalised sets, with \<open>correct\<close> their intersection; accuracy and precision are
  both \<open>1\<close> if and only if the normalised set of the prediction equals the normalised
  set of the truth and that set is not empty.
\<close>

theorem analyze_differences_perfect_iff:
  "accuracy (analyze_differences lower pred truth) =
     real (card (correct_diagnoses (analyze_differences lower pred truth)))
       / real (max (card (label_set lower truth)) 1) \<and>
   precision (analyze_differences lower pred truth) =
     real (card (correct_diagnoses (analyze_differences lower pred truth)))
       / real (max (card (label_set lower pred)) 1) \<and>
   correct_diagnoses (analyze_differences lower pred truth) =
     label_set lower pred \<inter> label_set lower truth \<and>
   ((accuracy (analyze_differences lower pred truth) = 1 \<and>
     precision (analyze_differences lower pred truth) = 1) \<longleftrightarrow>
    (label_set lower pred = label_set lower truth \<and> label_set lower pred \<noteq> {}))"
proof -
  let ?P = "label_set lower pred" and ?T = "label_set lower truth"
  have fin: "finite ?P" "finite ?T" by (rule finite_label_set)+
  have mT: "?T \<noteq> {} \<Longrightarrow> max (card ?T) 1 = card ?T"
    using fin card_gt_0_iff [of ?T] by (auto simp: max_def)
  have mP: "?P \<noteq> {} \<Longrightarrow> max (card ?P) 1 = card ?P"
    using fin card_gt_0_iff [of ?P] by (auto simp: max_def)
  have acc: "accuracy (analyze_differences lower pred truth) =
      (if ?T \<noteq> {} then real (card (?P \<inter> ?T)) / real (card ?T) else 0)"
    using mT mP by (simp add: analyze_differences_def Let_def)
  have prec: "precision (analyze_differences lower pred truth) =
      (if ?P \<noteq> {} then real (card (?P \<inter> ?T)) / real (card ?P) else 0)"
    using mT mP by (simp add: analyze_differences_def Let_def)
  have cor: "correct_diagnoses (analyze_differences lower pred truth) = ?P \<inter> ?T"
    by (simp add: analyze_differences_def Let_def)
  have a1: "accuracy (analyze_differences lower pred truth) = 1 \<longleftrightarrow> ?T \<noteq> {} \<and> ?T \<subseteq> ?P"
  proof (cases "?T = {}")
    case True
    then show ?thesis by (simp add: acc)
  next
    case False
    then have pos: "0 < card ?T" using fin by (simp add: card_gt_0_iff)
    have "card (?P \<inter> ?T) = card ?T \<longleftrightarrow> ?T \<subseteq> ?P"
    proof
      assume "card (?P \<inter> ?T) = card ?T"
      then have "?P \<inter> ?T = ?T" using fin by (intro card_subset_eq) auto
      then show "?T \<subseteq> ?P" by blast
    next
      assume "?T \<subseteq> ?P"
      then have "?P \<inter> ?T = ?T" by blast
      then show "card (?P \<inter> ?T) = card ?T" by simp
    qed
    with False pos show ?thesis by (auto simp: acc)
  qed
  have p1: "precision (analyze_differences lower pred truth) = 1 \<longleftrightarrow> ?P \<noteq> {} \<and> ?P \<subseteq> ?T"
  proof (cases "?P = {}")
    case True
    then show ?thesis by (simp add: prec)
  next
    case False
    then have pos: "0 < card ?P" using fin by (simp add: card_gt_0_iff)
    have "card (?P \<inter> ?T) = card ?P \<longleftrightarrow> ?P \<subseteq> ?T"
    proof
      assume "card (?P \<inter> ?T) = card ?P"
      then have "?P \<inter> ?T = ?P" using fin by (intro card_subset_eq) auto
      then show "?P \<subseteq> ?T" by blast
    next
      assume "?P \<subseteq> ?T"
      then have "?P \<inter> ?T = ?P" by blast
      then show "card (?P \<inter> ?T) = card ?P" by simp
    qed
    with False pos show ?thesis by (auto simp: prec)
  qed
  have form_a: "accuracy (analyze_differences lower pred truth) =
     real (card (correct_diagnoses (analyze_differences lower pred truth))) / real (max (card ?T) 1)"
    using mT by (simp add: acc cor)
  have form_p: "precision (analyze_differences lower pred truth) =
     real (card (correct_diagnoses (analyze_differences lower pred truth))) / real (max (card ?P) 1)"
    using mP by (simp add: prec cor)
  show ?thesis
    unfolding a1 p1 using form_a form_p cor by auto
qed


section \<open>Properties of the progress classification\<close>

lemma trend_examples:
  "trend_status [1/2, 1/2, 1/2] = Stagnating"
  "trend_status [3/10, 1/2] = Improving"
  "trend_status [9/10, 2/10] = Unstable"
  by (simp_all add: trend_status_def is_improving_def is_stagnating_def)

lemma status_nonempty:
  "optimization_history opt \<noteq> [] \<Longrightarrow>
   status (evaluate_optimization_progress opt) =
     trend_status (map avg_accuracy (optimization_history opt))"
  by (simp add: evaluate_optimization_progress_def Let_def)

lemma is_stagnating_iff:
  "is_stagnating t \<longleftrightarrow> 3 \<le> length t \<and>
      \<bar>t ! (length t - 1) - t ! (length t - 2)\<bar> < 1 / 100 \<and>
      \<bar>t ! (length t - 2) - t ! (length t - 3)\<bar> < 1 / 100"
proof -
  have a: "length t - 1 - 1 = length t - 2" by simp
  have b: "length t - 2 - 1 = length t - 3" by simp
  show ?thesis unfolding is_stagnating_def list.pred_inject a b by simp
qed

lemma trend_improving_iff:
  "trend_status t = Improving \<longleftrightarrow> 2 \<le> length t \<and> t ! (length t - 2) < t ! (length t - 1)"
  by (simp add: trend_status_def is_improving_def)

lemma trend_stagnating_iff:
  "trend_status t = Stagnating \<longleftrightarrow> trend_status t \<noteq> Improving \<and> is_stagnating t"
  by (simp add: trend_status_def)

lemma trend_unstable_iff:
  "trend_status t = Unstable \<longleftrightarrow> trend_status t \<noteq> Improving \<and> trend_status t \<noteq> Stagnating"
  by (simp add: trend_status_def)

lemma avg_accuracy_example_round: "avg_accuracy (example_round a) = a"
  by (simp add: avg_accuracy_def example_round_def)

text \<open>
  C4: the trend \<open>[0.50, 0.50, 0.50]\<close> is stagnating, \<open>[0.30, 0.50]\<close> improving and
  \<open>[0.90, 0.20]\<close> unstable; a trend is improving iff its last value strictly exceeds the
  one before, stagnating iff it is not improving, has at least three points and its two
  last differences are below \<open>0.01\<close> in absolute value, and unstable otherwise; the
  status \<open>evaluate_optimization_progress\<close> reports for a history that is not empty is this
  classification of the per-round mean accuracies.
\<close>

theorem trend_classification:
  "trend_status [1/2, 1/2, 1/2] = Stagnating \<and>
   trend_status [3/10, 1/2] = Improving \<and>
   trend_status [9/10, 2/10] = Unstable \<and>
   (trend_status t = Improving \<longleftrightarrow> 2 \<le> length t \<and> t ! (length t - 2) < t ! (length t - 1)) \<and>
   (trend_status t = Stagnating \<longleftrightarrow>
      trend_status t \<noteq> Improving \<and> 3 \<le> length t \<and>
      \<bar>t ! (length t - 1) - t ! (length t - 2)\<bar> < 1 / 100 \<and>
      \<bar>t ! (length t - 2) - t ! (length t - 3)\<bar> < 1 / 100) \<and>
   (trend_status t = Unstable \<longleftrightarrow> trend_status t \<noteq> Improving \<and> trend_status t \<noteq> Stagnating) \<and>
   (optimization_history opt \<noteq> [] \<longrightarrow>
      status (evaluate_optimization_progress opt) =
        trend_status (map avg_accuracy (optimization_history opt)))"
  using trend_examples trend_improving_iff [of t] trend_stagnating_iff [of t]
    trend_unstable_iff [of t] is_stagnating_iff [of t] status_nonempty [of opt]
  by blast

theorem trend_classification_witness:
  "optimization_history
     (new_optimizer\<lparr>optimization_history :=
        [example_round (1/2), example_round (1/2), example_round (1/2)]\<rparr>) \<noteq> [] \<and>
   status (evaluate_optimization_progress
     (new_optimizer\<lparr>optimization_history :=
        [example_round (1/2), example_round (1/2), example_round (1/2)]\<rparr>)) = Stagnating"
  using trend_classification [of "[1/2, 1/2, 1/2]"
    "new_optimizer\<lparr>optimization_history :=
        [example_round (1/2), example_round (1/2), example_round (1/2)]\<rparr>"]
  by (simp add: avg_accuracy_example_round)

section \<open>Properties of the response parser\<close>

lemma extract_diseases_parse_failure:
  "loads (clean_response response) = None \<Longrightarrow>
   extract_diseases_from_response loads repr response = []"
  by (simp add: extract_diseases_from_response_def extract_diseases_try_def)

lemma extract_diseases_error_field:
  "loads (clean_response response) = Some (JObj kvs) \<Longrightarrow> has_key kvs error_key \<Longrightarrow>
   extract_diseases_from_response loads repr response = []"
  by (simp add: extract_diseases_from_response_def extract_diseases_try_def)

lemma clean_names_nonblank: "s \<in> set (clean_names repr ds) \<Longrightarrow> s \<noteq> []"
  by (auto simp: clean_names_def)

text \<open>On the list branch every returned name is a stripped text that is not empty.\<close>

lemma extract_diseases_list_nonblank:
  "loads (clean_response response) = Some (JObj kvs) \<Longrightarrow>
   map_of kvs diseases_key = Some (JArr ds) \<Longrightarrow>
   s \<in> set (extract_diseases_from_response loads repr response) \<Longrightarrow> s \<noteq> []"
  by (auto simp: extract_diseases_from_response_def extract_diseases_try_def
        dest: clean_names_nonblank split: if_splits)

text \<open>Stripping twice is stripping once, so a returned name is non-empty after trimming.\<close>

lemma dropWhile_unchanged: "xs = [] \<or> \<not> p (hd xs) \<Longrightarrow> dropWhile p xs = xs"
  by (cases xs) auto

lemma strip_where_idem: "strip_where p (strip_where p s) = strip_where p s"
proof -
  let ?a = "dropWhile p s"
  let ?b = "dropWhile p (rev ?a)"
  have split: "rev ?a = takeWhile p (rev ?a) @ ?b" by simp
  then have a: "?a = rev ?b @ rev (takeWhile p (rev ?a))"
    by (metis rev_append rev_rev_ident)
  have front: "dropWhile p (rev ?b) = rev ?b"
  proof (rule dropWhile_unchanged, cases "rev ?b = []")
    case True
    then show "rev ?b = [] \<or> \<not> p (hd (rev ?b))" by simp
  next
    case False
    with a have "hd (rev ?b) = hd ?a" by (metis hd_append2)
    moreover from False a have "?a \<noteq> []" by (metis Nil_is_append_conv)
    then have "\<not> p (hd ?a)" by (rule hd_dropWhile)
    ultimately show "rev ?b = [] \<or> \<not> p (hd (rev ?b))" by simp
  qed
  show ?thesis
    by (simp add: strip_where_def front)
qed

lemma py_strip_idem: "py_strip (py_strip s) = py_strip s"
  by (simp add: py_strip_def strip_where_idem)

lemma clean_names_stripped:
  "s \<in> set (clean_names repr ds) \<Longrightarrow> py_strip s = s \<and> s \<noteq> []"
  by (auto simp: clean_names_def py_strip_idem)

lemma extract_diseases_list_stripped:
  "loads (clean_response response) = Some (JObj kvs) \<Longrightarrow>
   map_of kvs diseases_key = Some (JArr ds) \<Longrightarrow>
   s \<in> set (extract_diseases_from_response loads repr response) \<Longrightarrow> py_strip s \<noteq> []"
  by (auto simp: extract_diseases_from_response_def extract_diseases_try_def
        dest: clean_names_stripped split: if_splits)

lemma clean_blank_scalar: "clean_response text_blank_scalar = text_blank_scalar"
  by (simp add: clean_response_def text_blank_scalar_def asc_def py_strip_def strip_where_def
        is_space_def fence_def Let_def)

lemma clean_prefixed: "clean_response text_prefixed_answer = text_prefixed_answer"
  by (simp add: clean_response_def text_prefixed_answer_def text_list_a_def asc_def
        py_strip_def strip_where_def is_space_def fence_def Let_def)

lemma clean_empty_answer: "clean_response text_empty_answer = text_empty_answer"
  by (simp add: clean_response_def text_empty_answer_def asc_def py_strip_def strip_where_def
        is_space_def fence_def Let_def)

lemma clean_list_a_indented: "clean_response text_list_a_indented = text_list_a_indented"
  by (simp add: clean_response_def text_list_a_indented_def asc_def py_strip_def
        strip_where_def is_space_def fence_def Let_def)

lemmas example_texts =
  text_list_a_def text_blank_scalar_def text_empty_answer_def text_list_a_indented_def
  text_prefixed_answer_def text_scalar_a_def asc_def

lemma loads_blank_scalar:
  "example_loads text_blank_scalar = Some (JObj [(diseases_key, JStr [32])])"
  by (simp add: example_loads_def)

lemma loads_scalar_a:
  "example_loads text_scalar_a = Some (JObj [(diseases_key, JStr [97])])"
  by (simp add: example_loads_def example_texts)

lemma loads_list_a:
  "example_loads text_list_a = Some (JObj [(diseases_key, JArr [JStr [97]])])"
  by (simp add: example_loads_def example_texts)

lemma loads_list_a_indented:
  "example_loads text_list_a_indented = Some (JObj [(diseases_key, JArr [JStr [97]])])"
  by (simp add: example_loads_def example_texts)

lemma loads_empty_answer:
  "example_loads text_empty_answer = Some (JObj [(diseases_key, JArr [])])"
  by (simp add: example_loads_def example_texts)

lemma loads_prefixed: "example_loads text_prefixed_answer = None"
  by (simp add: example_loads_def example_texts)

lemma search_prefixed: "re_search json_pattern text_prefixed_answer = Some text_list_a"
  by (simp add: json_pattern_def text_prefixed_answer_def text_list_a_def asc_def
        diseases_key_def not_brace_def is_space_def)

lemma keys_differ: "\<not> has_key [(diseases_key, v)] error_key"
  by (simp add: has_key_def diseases_key_def error_key_def asc_def)

lemma strip_letter_a: "py_strip [97] = [97]"
  by (simp add: py_strip_def strip_where_def is_space_def)

lemma strip_space: "py_strip [32] = []"
  by (simp add: py_strip_def strip_where_def is_space_def)

text \<open>
  C5: the parser returns on every text (it is a total function into the lists of strings,
  and both handlers return the empty list), it returns the empty list on a parse failure
  and on an \<open>error\<close> field, and the names of the list branch are not empty.  The branch
  for a single value does not filter: when the decoded object holds under \<open>diseases\<close> a
  string that is not empty and consists of white space, the parser returns the list of
  one empty string.
\<close>

theorem extract_diseases_blank_scalar:
  "loads (clean_response response) = Some (JObj kvs) \<Longrightarrow>
   \<not> has_key kvs error_key \<Longrightarrow>
   map_of kvs diseases_key = Some (JStr s) \<Longrightarrow>
   s \<noteq> [] \<Longrightarrow> py_strip s = [] \<Longrightarrow>
   extract_diseases_from_response loads repr response = [[]]"
  by (simp add: extract_diseases_from_response_def extract_diseases_try_def)

theorem extract_diseases_blank_scalar_witness:
  "extract_diseases_from_response example_loads example_repr text_blank_scalar = [[]]"
  using extract_diseases_blank_scalar
    [of example_loads text_blank_scalar "[(diseases_key, JStr [32])]" "[32]" example_repr]
  by (simp add: clean_blank_scalar loads_blank_scalar keys_differ strip_space)

section \<open>Evaluation of the cases\<close>

lemma subscript_score_bounds:
  assumes "calculate_overlap lower A B = Inr r" and "subscript_score r = Inr x"
  shows "0 \<le> x \<and> x \<le> 1"
proof -
  have "\<exists>y. overlap_score (calculate_overlap lower A B) = Some y \<and> 0 \<le> y \<and> y \<le> 1"
    using card_Int_le_Un [OF finite_label_set finite_label_set, of lower A lower B]
    by (auto simp: overlap_score_eq divide_le_eq_1 card_gt_0_iff finite_label_set)
  then obtain y
    where y: "overlap_score (calculate_overlap lower A B) = Some y" "0 \<le> y" "y \<le> 1"
    by blast
  from assms have "overlap_score (calculate_overlap lower A B) = Some x"
    by (cases r) auto
  with y show ?thesis by simp
qed

lemma case_score_bounds: "case_score rt predicted gt = Inr x \<Longrightarrow> 0 \<le> x \<and> x \<le> 1"
  by (auto simp: case_score_def Let_def split: sum.splits dest: subscript_score_bounds)

lemma process_input_data_no_predictions: "process_input_data repr (JArr []) = []"
  by (simp add: process_input_data_def stripped_strings_def)

lemma case_score_no_predictions: "case_score rt [] gt = Inl TypeError"
  by (simp add: case_score_def process_input_data_no_predictions calculate_overlap_cases)

lemma evaluate_cases_Cons:
  "evaluate_cases rt p (cs # rest) ev c =
     (case case_score rt (fst (predict_diseases rt p (input_data cs) c)) (gt_data cs) of
        Inl e \<Rightarrow> evaluate_cases rt p rest (ev\<lparr>case_log := case_log ev @ [(case_id cs, None)]\<rparr>)
                  (snd (predict_diseases rt p (input_data cs) c))
      | Inr x \<Rightarrow> evaluate_cases rt p rest
                  \<lparr>total_overlap = total_overlap ev + x, total_files = total_files ev + 1,
                   case_log = case_log ev @ [(case_id cs, Some x)]\<rparr>
                  (snd (predict_diseases rt p (input_data cs) c)))"
  by (simp split: prod.splits sum.splits)

lemma evaluate_cases_log:
  "\<exists>L. case_log (fst (evaluate_cases rt p cases ev c)) = case_log ev @ L \<and>
       map fst L = map case_id cases \<and>
       total_files (fst (evaluate_cases rt p cases ev c))
         = total_files ev + length (List.map_filter snd L) \<and>
       total_overlap (fst (evaluate_cases rt p cases ev c))
         = total_overlap ev + sum_list (List.map_filter snd L) \<and>
       list_all (\<lambda>x. 0 \<le> x \<and> x \<le> 1) (List.map_filter snd L)"
proof (induction cases arbitrary: ev c)
  case Nil
  then show ?case by (simp add: List.map_filter_simps)
next
  case (Cons cs rest)
  let ?c' = "snd (predict_diseases rt p (input_data cs) c)"
  show ?case
  proof (cases "case_score rt (fst (predict_diseases rt p (input_data cs) c)) (gt_data cs)")
    case (Inl e)
    let ?ev = "ev\<lparr>case_log := case_log ev @ [(case_id cs, None)]\<rparr>"
    from Cons.IH [of ?ev ?c'] obtain L where L:
      "case_log (fst (evaluate_cases rt p rest ?ev ?c')) = case_log ?ev @ L"
      "map fst L = map case_id rest"
      "total_files (fst (evaluate_cases rt p rest ?ev ?c')) = total_files ?ev + length (List.map_filter snd L)"
      "total_overlap (fst (evaluate_cases rt p rest ?ev ?c')) = total_overlap ?ev + sum_list (List.map_filter snd L)"
      "list_all (\<lambda>x. 0 \<le> x \<and> x \<le> 1) (List.map_filter snd L)"
      by blast
    have "evaluate_cases rt p (cs # rest) ev c = evaluate_cases rt p rest ?ev ?c'"
      using Inl by (simp add: evaluate_cases_Cons del: evaluate_cases.simps)
    with L show ?thesis
      by (intro exI [of _ "(case_id cs, None) # L"]) (simp add: List.map_filter_simps)
  next
    case (Inr x)
    let ?ev = "\<lparr>total_overlap = total_overlap ev + x, total_files = total_files ev + 1,
                   case_log = case_log ev @ [(case_id cs, Some x)]\<rparr>"
    from Cons.IH [of ?ev ?c'] obtain L where L:
      "case_log (fst (evaluate_cases rt p rest ?ev ?c')) = case_log ?ev @ L"
      "map fst L = map case_id rest"
      "total_files (fst (evaluate_cases rt p rest ?ev ?c')) = total_files ?ev + length (List.map_filter snd L)"
      "total_overlap (fst (evaluate_cases rt p rest ?ev ?c')) = total_overlap ?ev + sum_list (List.map_filter snd L)"
      "list_all (\<lambda>x. 0 \<le> x \<and> x \<le> 1) (List.map_filter snd L)"
      by blast
    have "evaluate_cases rt p (cs # rest) ev c = evaluate_cases rt p rest ?ev ?c'"
      using Inr by (simp add: evaluate_cases_Cons del: evaluate_cases.simps)
    with L case_score_bounds [OF Inr] show ?thesis
      by (intro exI [of _ "(case_id cs, Some x) # L"]) (simp add: List.map_filter_simps)
  qed
qed

text \<open>
  C9: \<open>calculate_overlap\<close> returns the bare float \<open>0.0\<close> exactly when a list is empty
  or normalises to the empty set, and the dictionary of the four keys otherwise; the
  subscript \<open>['score']\<close> of the float raises; so a case whose prediction is empty is
  logged as failed and adds nothing to the sum and the count of the round's mean.
\<close>

theorem calculate_overlap_bare_float:
  "calculate_overlap lower A B =
     (if A = [] \<or> B = [] \<or> label_set lower A = {} \<or> label_set lower B = {} then Inr (Bare 0)
      else Inr (Dict \<lparr>score = real (card (label_set lower A \<inter> label_set lower B))
                              / real (card (label_set lower A \<union> label_set lower B)),
                      overlap_diseases = label_set lower A \<inter> label_set lower B,
                      missed_diseases = label_set lower B - label_set lower A,
                      extra_diseases = label_set lower A - label_set lower B\<rparr>)) \<and>
   subscript_score (Bare x) = Inl TypeError \<and>
   (fst (predict_diseases rt p (input_data cs) c) = [] \<longrightarrow>
      evaluate_cases rt p (cs # rest) ev c =
        evaluate_cases rt p rest (ev\<lparr>case_log := case_log ev @ [(case_id cs, None)]\<rparr>)
          (snd (predict_diseases rt p (input_data cs) c)))"
  using calculate_overlap_cases [of lower A B]
  by (simp add: evaluate_cases_Cons case_score_no_predictions del: evaluate_cases.simps)

section \<open>The example runtime\<close>

lemma example_runtime_simps:
  "str_lower example_runtime = ascii_lower"
  "json_loads example_runtime = example_json_loads"
  "json_dumps example_runtime = example_dumps"
  "value_repr example_runtime = example_repr"
  "optimizer_service example_runtime = (\<lambda>k base_prompt iter previous. Some skeleton)"
  "analyzer_service example_runtime = (\<lambda>k input preds truth report. Some (asc ''report''))"
  "predictor_service example_runtime = (\<lambda>k prompt_text data. None)"
  by (simp_all add: example_runtime_def)

lemma json_decoded_example: "json_decoded example_runtime = example_loads"
  by (auto simp: json_decoded_def example_runtime_simps example_json_loads_def fun_eq_iff
        split: option.splits)

lemma extract_empty_answer:
  "extract_diseases_from_response example_loads example_repr text_empty_answer = []"
  by (simp add: extract_diseases_from_response_def extract_diseases_try_def clean_empty_answer
        loads_empty_answer keys_differ clean_names_def)

lemma predict_example: "predict example_runtime p d c = (text_empty_answer, c + 1)"
  by (simp add: predict_def example_runtime_simps example_dumps_def)

lemma predict_diseases_example: "predict_diseases example_runtime p d c = ([], c + 3)"
  by (simp add: predict_diseases_def numeral_3_eq_3 predict_example example_runtime_simps
        json_decoded_example extract_empty_answer)



theorem calculate_overlap_bare_float_witness:
  "fst (predict_diseases example_runtime skeleton (input_data (example_case 1)) 0) = [] \<and>
   evaluate_cases example_runtime skeleton [example_case 1]
       \<lparr>total_overlap = 0, total_files = 0, case_log = []\<rparr> 0
     = (\<lparr>total_overlap = 0, total_files = 0, case_log = [([49], None)]\<rparr>, 3)"
  using calculate_overlap_bare_float [of ascii_lower "[]" "[]" 0 example_runtime skeleton "example_case 1" 0 "[]"
      "\<lparr>total_overlap = 0, total_files = 0, case_log = []\<rparr>"]
  by (simp add: predict_diseases_example example_case_def)


section \<open>Properties of prompt generation\<close>


lemma make_api_call_Inr:
  "fst (make_api_call service c) = Inr y \<Longrightarrow> \<exists>k x. service k = Some x \<and> y = py_strip x"
  by (auto simp: make_api_call_def split: option.splits)

lemma ds_generate_prompt_valid:
  "fst (ds_generate_prompt rt base i previous c) =
     (case fst (make_api_call (\<lambda>k. optimizer_service rt k base i previous) c) of
        Inl e \<Rightarrow> base
      | Inr content \<Rightarrow> if valid_skeleton content then content else base)"
  by (auto simp: ds_generate_prompt_def valid_skeleton_def split: prod.splits sum.splits)

lemma empty_context_base: "empty_context ctx \<Longrightarrow> context_base_prompt ctx = base_prompt_template"
  by (simp add: empty_context_def context_base_prompt_def)

lemma generate_prompt_fst:
  "fst (generate_prompt rt ctx opt) =
     (if generation_fails rt ctx opt then context_base_prompt ctx
      else (case build_feedback (context_iteration ctx opt) (optimization_history opt) of
              None \<Rightarrow> context_base_prompt ctx
            | Some previous \<Rightarrow>
                fst (ds_generate_prompt rt (context_base_prompt ctx)
                       (context_iteration ctx opt) previous (calls opt))))"
  by (auto simp: generate_prompt_def generation_fails_def Let_def empty_context_base
        split: option.splits prod.splits)

lemma main_round_prompt:
  "round_prompt (snd (main_round rt cs i st)) =
     fst (generate_prompt rt
       \<lparr>ctx_base_prompt = Some (best_prompt st), ctx_all_cases = Some (take 3 cs),
        ctx_iteration = Some (i + 1), ctx_previous_results = Some (best_avg_overlap st, i)\<rparr>
       (optimizer_obj st))"
  by (simp add: main_round_def generation_step_def Let_def split: prod.splits)

lemma main_round_best_prompt:
  "best_prompt (fst (main_round rt cs i st)) = best_prompt st \<or>
   best_prompt (fst (main_round rt cs i st)) = round_prompt (snd (main_round rt cs i st))"
  by (simp add: main_round_def Let_def split: prod.splits)

lemma generate_prompt_invalid:
  assumes "build_feedback (context_iteration ctx opt) (optimization_history opt) = Some feedback"
    and "fst (make_api_call
           (\<lambda>k. optimizer_service rt k (context_base_prompt ctx) (context_iteration ctx opt)
                  feedback)
           (calls opt)) = Inr content"
    and "\<not> valid_skeleton content"
  shows "fst (generate_prompt rt ctx opt) = context_base_prompt ctx"
  using assms by (simp add: generate_prompt_fst ds_generate_prompt_valid)

lemma main_round_cases:
  "map fst (round_log (snd (main_round rt cs i st))) = map case_id cs"
proof -
  obtain np count opt' ctx1 where g: "generation_step rt cs i st = (np, count, opt', ctx1)"
    by (cases "generation_step rt cs i st") auto
  let ?ev = "\<lparr>total_overlap = 0, total_files = 0, case_log = []\<rparr>"
  have r: "round_log (snd (main_round rt cs i st)) =
      case_log (fst (evaluate_cases rt np cs ?ev (calls opt')))"
    by (simp add: main_round_def g Let_def case_prod_beta)
  from evaluate_cases_log [of rt np cs ?ev "calls opt'"] obtain L where
    "case_log (fst (evaluate_cases rt np cs ?ev (calls opt'))) = case_log ?ev @ L"
    "map fst L = map case_id cs"
    by blast
  with r show ?thesis by simp
qed

text \<open>
  C3: a candidate is invalid exactly when it lacks one of the four section markers or
  does not split into five parts on the opening bracket.  For every candidate, that is
  the stripped answer \<open>content\<close> that the optimizer service gives to the request of a
  round (base prompt, round index, feedback, at the call index of that request): when it
  is invalid, the optimizer client returns the base prompt, \<open>generate_prompt\<close> returns the
  base prompt of its context, and the round of the loop evaluates every case with the
  best prompt so far and keeps that prompt.  What the service answers to any other
  request (another round, another call) plays no part.
\<close>

theorem invalid_candidate_rejected:
  "(\<not> valid_skeleton content \<longleftrightarrow>
      \<not> py_in marker_task content \<or> \<not> py_in marker_rules content \<or>
      \<not> py_in marker_requirements content \<or> \<not> py_in marker_format content \<or>
      length (split_char 12304 content) \<noteq> 5) \<and>
   (fst (make_api_call (\<lambda>k. optimizer_service rt k base i previous) c) = Inr content \<and>
    \<not> valid_skeleton content \<longrightarrow>
      fst (ds_generate_prompt rt base i previous c) = base) \<and>
   (build_feedback (context_iteration ctx opt) (optimization_history opt) = Some feedback \<and>
    fst (make_api_call
           (\<lambda>k. optimizer_service rt k (context_base_prompt ctx) (context_iteration ctx opt)
                  feedback)
           (calls opt)) = Inr content \<and>
    \<not> valid_skeleton content \<longrightarrow>
      fst (generate_prompt rt ctx opt) = context_base_prompt ctx) \<and>
   (build_feedback (n + 1) (optimization_history (optimizer_obj st)) = Some round_feedback \<and>
    fst (make_api_call
           (\<lambda>k. optimizer_service rt k (best_prompt st) (n + 1) round_feedback)
           (calls (optimizer_obj st))) = Inr content \<and>
    \<not> valid_skeleton content \<longrightarrow>
      round_prompt (snd (main_round rt cs n st)) = best_prompt st \<and>
      map fst (round_log (snd (main_round rt cs n st))) = map case_id cs \<and>
      best_prompt (fst (main_round rt cs n st)) = best_prompt st)"
proof (intro conjI impI)
  show "\<not> valid_skeleton content \<longleftrightarrow>
      \<not> py_in marker_task content \<or> \<not> py_in marker_rules content \<or>
      \<not> py_in marker_requirements content \<or> \<not> py_in marker_format content \<or>
      length (split_char 12304 content) \<noteq> 5"
    by (auto simp: valid_skeleton_def)
next
  assume "fst (make_api_call (\<lambda>k. optimizer_service rt k base i previous) c) = Inr content \<and>
    \<not> valid_skeleton content"
  then show "fst (ds_generate_prompt rt base i previous c) = base"
    by (simp add: ds_generate_prompt_valid)
next
  assume "build_feedback (context_iteration ctx opt) (optimization_history opt) = Some feedback \<and>
    fst (make_api_call
           (\<lambda>k. optimizer_service rt k (context_base_prompt ctx) (context_iteration ctx opt)
                  feedback)
           (calls opt)) = Inr content \<and>
    \<not> valid_skeleton content"
  then show "fst (generate_prompt rt ctx opt) = context_base_prompt ctx"
    by (intro generate_prompt_invalid [of ctx opt feedback rt content]) simp_all
next
  assume h: "build_feedback (n + 1) (optimization_history (optimizer_obj st)) = Some round_feedback \<and>
    fst (make_api_call
           (\<lambda>k. optimizer_service rt k (best_prompt st) (n + 1) round_feedback)
           (calls (optimizer_obj st))) = Inr content \<and>
    \<not> valid_skeleton content"
  let ?ctx = "\<lparr>ctx_base_prompt = Some (best_prompt st), ctx_all_cases = Some (take 3 cs),
        ctx_iteration = Some (n + 1), ctx_previous_results = Some (best_avg_overlap st, n)\<rparr>"
  have b: "context_base_prompt ?ctx = best_prompt st"
    "context_iteration ?ctx (optimizer_obj st) = n + 1"
    by (simp_all add: context_base_prompt_def context_iteration_def)
  have "fst (generate_prompt rt ?ctx (optimizer_obj st)) = context_base_prompt ?ctx"
    using h by (intro generate_prompt_invalid [of ?ctx "optimizer_obj st" round_feedback rt content])
      (simp_all only: b, simp_all)
  then have "fst (generate_prompt rt ?ctx (optimizer_obj st)) = best_prompt st"
    by (simp only: b)
  then show p: "round_prompt (snd (main_round rt cs n st)) = best_prompt st"
    by (simp add: main_round_prompt)
  from main_round_best_prompt [of rt cs n st] p
  show "best_prompt (fst (main_round rt cs n st)) = best_prompt st" by auto
  show "map fst (round_log (snd (main_round rt cs n st))) = map case_id cs"
    by (rule main_round_cases)
qed

lemma make_api_call_Some: "make_api_call (\<lambda>k. Some x) c = (Inr (py_strip x), c + 1)"
  by (simp add: make_api_call_def)

lemma make_api_call_None: "make_api_call (\<lambda>k. None) c = (Inl ServiceError, c + 3)"
  by (simp add: make_api_call_def)

lemma strip_skeleton: "py_strip skeleton = skeleton"
  by (simp add: skeleton_def marker_task_def marker_rules_def marker_requirements_def
        marker_format_def py_strip_def strip_where_def is_space_def)

lemma skeleton_not_empty: "skeleton \<noteq> []"
  by (simp add: skeleton_def marker_task_def)

lemma skeleton_rules: "py_in marker_rules skeleton"
  by (simp add: skeleton_def marker_task_def marker_rules_def marker_requirements_def
        marker_format_def py_in_def py_find_def)

lemma skeleton_valid: "valid_skeleton skeleton"
  by (simp add: valid_skeleton_def skeleton_def marker_task_def marker_rules_def
        marker_requirements_def marker_format_def py_in_def py_find_def)

lemma careless_answer_invalid: "\<not> valid_skeleton (py_strip (asc ''rules''))"
  by (simp add: valid_skeleton_def marker_task_def py_in_def py_find_def asc_def
        py_strip_def strip_where_def is_space_def)

lemma ds_generate_prompt_example:
  "ds_generate_prompt example_runtime base i previous c = (skeleton, c + 1)"
  using skeleton_valid
  by (simp add: ds_generate_prompt_def example_runtime_simps make_api_call_Some
        strip_skeleton valid_skeleton_def)

lemma strip_report: "py_strip (asc ''report'') = asc ''report''"
  by (simp add: asc_def py_strip_def strip_where_def is_space_def)

lemma ds_analyze_results_example:
  "ds_analyze_results example_runtime input preds truth report c = (asc ''report'', c + 1)"
  by (simp add: ds_analyze_results_def example_runtime_simps make_api_call_Some strip_report)

lemma differences_nothing_predicted:
  "analyze_differences ascii_lower [] [asc ''flu''] =
     \<lparr>missed_diagnoses = {asc ''flu''}, wrong_diagnoses = {}, correct_diagnoses = {},
      accuracy = 0, precision = 0\<rparr>"
  by (simp add: analyze_differences_def label_set_flu label_set_Nil)

lemma flu_not_empty: "asc ''flu'' \<noteq> []"
  by (simp add: asc_def)

lemma analyze_results_example:
  "analyze_results example_runtime p (example_case n) c =
     (Inr \<lparr>result_case_id = [48 + n], predictions = [],
           ground_truth_labels = JArr [JStr (asc ''flu'')],
           differences = \<lparr>missed_diagnoses = {asc ''flu''}, wrong_diagnoses = {},
                          correct_diagnoses = {}, accuracy = 0, precision = 0\<rparr>,
           analysis_report = asc ''report''\<rparr>, c + 4)"
  by (simp add: analyze_results_def predict_diseases_example example_case_def gt_diseases_def
        iterate_labels_def example_runtime_simps differences_nothing_predicted
        ds_analyze_results_example flu_not_empty)


section \<open>History atomicity\<close>

lemma generate_prompt_history_fails:
  "generation_fails rt ctx opt \<Longrightarrow>
   optimization_history (snd (generate_prompt rt ctx opt)) = optimization_history opt"
  by (auto simp: generate_prompt_def generation_fails_def Let_def
        split: option.splits prod.splits)

lemma generate_prompt_history_succeeds:
  "\<not> generation_fails rt ctx opt \<Longrightarrow>
   \<exists>rec. optimization_history (snd (generate_prompt rt ctx opt)) = optimization_history opt @ [rec] \<and>
     new_prompt rec = fst (generate_prompt rt ctx opt) \<and>
     old_prompt rec = context_base_prompt ctx \<and>
     iteration rec = context_iteration ctx opt \<and>
     analysis_results rec \<noteq> [] \<and>
     total_cases (summary rec) = length (context_cases ctx)"
  by (auto simp: generate_prompt_def generation_fails_def Let_def
        split: option.splits prod.splits)

lemma generate_prompt_fst_succeeds:
  "\<not> generation_fails rt ctx opt \<Longrightarrow>
   \<exists>previous. build_feedback (context_iteration ctx opt) (optimization_history opt) = Some previous \<and>
     fst (generate_prompt rt ctx opt) =
       fst (ds_generate_prompt rt (context_base_prompt ctx) (context_iteration ctx opt)
              previous (calls opt))"
  by (auto simp: generate_prompt_fst generation_fails_def split: option.splits)

lemma generation_fails_listed:
  "empty_context ctx \<or> context_cases ctx = [] \<or>
   (context_iteration ctx opt \<noteq> 1 \<and> optimization_history opt = []) \<or>
   (context_iteration ctx opt \<noteq> 1 \<and> analysis_results (last (optimization_history opt)) = [])
   \<Longrightarrow> generation_fails rt ctx opt"
  by (auto simp: generation_fails_def build_feedback_def Let_def)

text \<open>
  C10: \<open>generate_prompt\<close> is atomic with respect to the history.  Each invocation
  the claim lists as failing (empty context, no case, no history or no case analysis in
  its last record in a round after the first, an optimizer output that is empty or lacks
  the rules marker, no case analysed) returns the base prompt and leaves
  \<open>optimization_history\<close> as it was; every other invocation appends exactly one record
  and returns the optimized prompt, which is the \<open>new_prompt\<close> of that record.
\<close>

theorem generate_prompt_history_atomic:
  "(empty_context ctx \<or> context_cases ctx = [] \<or>
    (context_iteration ctx opt \<noteq> 1 \<and> optimization_history opt = []) \<or>
    (context_iteration ctx opt \<noteq> 1 \<and> analysis_results (last (optimization_history opt)) = [])
      \<longrightarrow> generation_fails rt ctx opt) \<and>
   (generation_fails rt ctx opt \<longrightarrow>
      fst (generate_prompt rt ctx opt) = context_base_prompt ctx \<and>
      optimization_history (snd (generate_prompt rt ctx opt)) = optimization_history opt) \<and>
   (\<not> generation_fails rt ctx opt \<longrightarrow>
      (\<exists>previous rec.
         build_feedback (context_iteration ctx opt) (optimization_history opt) = Some previous \<and>
         fst (generate_prompt rt ctx opt) =
           fst (ds_generate_prompt rt (context_base_prompt ctx) (context_iteration ctx opt)
                  previous (calls opt)) \<and>
         optimization_history (snd (generate_prompt rt ctx opt)) = optimization_history opt @ [rec] \<and>
         new_prompt rec = fst (generate_prompt rt ctx opt) \<and>
         old_prompt rec = context_base_prompt ctx \<and>
         iteration rec = context_iteration ctx opt \<and>
         analysis_results rec \<noteq> [] \<and>
         total_cases (summary rec) = length (context_cases ctx)))"
proof (intro conjI impI)
  assume "empty_context ctx \<or> context_cases ctx = [] \<or>
    (context_iteration ctx opt \<noteq> 1 \<and> optimization_history opt = []) \<or>
    (context_iteration ctx opt \<noteq> 1 \<and> analysis_results (last (optimization_history opt)) = [])"
  then show "generation_fails rt ctx opt" by (rule generation_fails_listed)
next
  assume "generation_fails rt ctx opt"
  then show "fst (generate_prompt rt ctx opt) = context_base_prompt ctx"
    by (simp add: generate_prompt_fst)
next
  assume "generation_fails rt ctx opt"
  then show "optimization_history (snd (generate_prompt rt ctx opt)) = optimization_history opt"
    by (rule generate_prompt_history_fails)
next
  assume ok: "\<not> generation_fails rt ctx opt"
  from generate_prompt_fst_succeeds [OF ok] generate_prompt_history_succeeds [OF ok]
  show "\<exists>previous rec.
         build_feedback (context_iteration ctx opt) (optimization_history opt) = Some previous \<and>
         fst (generate_prompt rt ctx opt) =
           fst (ds_generate_prompt rt (context_base_prompt ctx) (context_iteration ctx opt)
                  previous (calls opt)) \<and>
         optimization_history (snd (generate_prompt rt ctx opt)) = optimization_history opt @ [rec] \<and>
         new_prompt rec = fst (generate_prompt rt ctx opt) \<and>
         old_prompt rec = context_base_prompt ctx \<and>
         iteration rec = context_iteration ctx opt \<and>
         analysis_results rec \<noteq> [] \<and>
         total_cases (summary rec) = length (context_cases ctx)"
    by blast
qed

lemma first_context_simps:
  "\<not> empty_context first_context"
  "context_cases first_context = [example_case 1]"
  "context_iteration first_context opt = 1"
  "context_base_prompt first_context = base_prompt_template"
  by (simp_all add: first_context_def empty_context_def context_cases_def
        context_iteration_def context_base_prompt_def)

lemma first_generation_succeeds: "\<not> generation_fails example_runtime first_context new_optimizer"
  by (simp add: generation_fails_def first_context_simps build_feedback_def
        ds_generate_prompt_example skeleton_not_empty skeleton_rules analyze_results_example)

theorem generate_prompt_history_atomic_witness:
  "context_cases (first_context\<lparr>ctx_all_cases := None\<rparr>) = [] \<and>
   fst (generate_prompt example_runtime (first_context\<lparr>ctx_all_cases := None\<rparr>) new_optimizer)
     = base_prompt_template \<and>
   optimization_history
     (snd (generate_prompt example_runtime (first_context\<lparr>ctx_all_cases := None\<rparr>) new_optimizer))
     = [] \<and>
   \<not> generation_fails example_runtime first_context new_optimizer \<and>
   fst (generate_prompt example_runtime first_context new_optimizer) = skeleton \<and>
   length (optimization_history
     (snd (generate_prompt example_runtime first_context new_optimizer))) = 1"
proof -
  let ?none = "first_context\<lparr>ctx_all_cases := None\<rparr>"
  have n: "context_cases ?none = []" "context_base_prompt ?none = base_prompt_template"
    by (simp_all add: first_context_def context_cases_def context_base_prompt_def)
  have h: "optimization_history new_optimizer = []" by (simp add: new_optimizer_def)
  from generate_prompt_history_atomic [of ?none new_optimizer example_runtime] n h
  have fail: "fst (generate_prompt example_runtime ?none new_optimizer) = base_prompt_template \<and>
    optimization_history (snd (generate_prompt example_runtime ?none new_optimizer)) = []"
    by simp
  from generate_prompt_history_atomic [of first_context new_optimizer example_runtime] first_generation_succeeds
  obtain previous rec where
    "fst (generate_prompt example_runtime first_context new_optimizer) =
       fst (ds_generate_prompt example_runtime (context_base_prompt first_context)
              (context_iteration first_context new_optimizer) previous (calls new_optimizer))"
    "optimization_history (snd (generate_prompt example_runtime first_context new_optimizer))
       = optimization_history new_optimizer @ [rec]"
    by blast
  then have ok: "fst (generate_prompt example_runtime first_context new_optimizer) = skeleton \<and>
    length (optimization_history
      (snd (generate_prompt example_runtime first_context new_optimizer))) = 1"
    by (simp add: ds_generate_prompt_example h)
  from n fail first_generation_succeeds ok show ?thesis by simp
qed


section \<open>Properties of the optimization loop\<close>


lemma sum_list_le_length:
  "list_all (\<lambda>x. 0 \<le> x \<and> x \<le> (1::real)) xs \<Longrightarrow> 0 \<le> sum_list xs \<and> sum_list xs \<le> real (length xs)"
  by (induction xs) auto

lemma evaluate_cases_mean:
  "0 \<le> total_overlap (fst (evaluate_cases rt p cs
           \<lparr>total_overlap = 0, total_files = 0, case_log = []\<rparr> c)) \<and>
   total_overlap (fst (evaluate_cases rt p cs
           \<lparr>total_overlap = 0, total_files = 0, case_log = []\<rparr> c))
     \<le> real (total_files (fst (evaluate_cases rt p cs
           \<lparr>total_overlap = 0, total_files = 0, case_log = []\<rparr> c))) \<and>
   map fst (case_log (fst (evaluate_cases rt p cs
           \<lparr>total_overlap = 0, total_files = 0, case_log = []\<rparr> c))) = map case_id cs"
proof -
  let ?ev0 = "\<lparr>total_overlap = 0, total_files = 0, case_log = []\<rparr>"
  from evaluate_cases_log [of rt p cs ?ev0 c] obtain L where
    L: "case_log (fst (evaluate_cases rt p cs ?ev0 c)) = case_log ?ev0 @ L"
       "map fst L = map case_id cs"
       "total_files (fst (evaluate_cases rt p cs ?ev0 c))
          = total_files ?ev0 + length (List.map_filter snd L)"
       "total_overlap (fst (evaluate_cases rt p cs ?ev0 c))
          = total_overlap ?ev0 + sum_list (List.map_filter snd L)"
       "list_all (\<lambda>x. 0 \<le> x \<and> x \<le> 1) (List.map_filter snd L)"
    by blast
  from sum_list_le_length [OF L(5)] L show ?thesis by simp
qed

lemma main_round_avg:
  "0 \<le> avg_overlap (snd (main_round rt cs i st)) \<and> avg_overlap (snd (main_round rt cs i st)) \<le> 1"
proof -
  obtain np count opt' ctx1 where g: "generation_step rt cs i st = (np, count, opt', ctx1)"
    by (cases "generation_step rt cs i st") auto
  let ?ev = "fst (evaluate_cases rt np cs \<lparr>total_overlap = 0, total_files = 0, case_log = []\<rparr> (calls opt'))"
  have avg: "avg_overlap (snd (main_round rt cs i st)) =
     (if 0 < total_files ?ev then total_overlap ?ev / real (total_files ?ev) else 0)"
    by (simp add: main_round_def g Let_def case_prod_beta)
  from evaluate_cases_mean [of rt np cs "calls opt'"]
  have "0 \<le> total_overlap ?ev" "total_overlap ?ev \<le> real (total_files ?ev)" by simp_all
  then show ?thesis
    by (simp add: avg divide_le_eq_1)
qed

lemma main_round_log:
  "map fst (round_log (snd (main_round rt cs i st))) = map case_id cs"
proof -
  obtain np count opt' ctx1 where g: "generation_step rt cs i st = (np, count, opt', ctx1)"
    by (cases "generation_step rt cs i st") auto
  have "round_log (snd (main_round rt cs i st)) =
      case_log (fst (evaluate_cases rt np cs
        \<lparr>total_overlap = 0, total_files = 0, case_log = []\<rparr> (calls opt')))"
    by (simp add: main_round_def g Let_def case_prod_beta)
  then show ?thesis
    using evaluate_cases_mean [of rt np cs "calls opt'"] by simp
qed

lemma generation_step_count:
  "fst (snd (generation_step rt cs i st)) \<le> stagnation_count st + 1"
  by (simp add: generation_step_def Let_def split: prod.splits)

lemma main_round_fields:
  "round_stagnation (snd (main_round rt cs i st)) = fst (snd (generation_step rt cs i st))"
  "stagnation_count (fst (main_round rt cs i st)) = round_stagnation (snd (main_round rt cs i st))"
  "round_number (snd (main_round rt cs i st)) = i + 1"
  "best_avg_overlap (fst (main_round rt cs i st)) =
     (if best_avg_overlap st < avg_overlap (snd (main_round rt cs i st))
      then avg_overlap (snd (main_round rt cs i st)) else best_avg_overlap st)"
  "best_prompt (fst (main_round rt cs i st)) =
     (if best_avg_overlap st < avg_overlap (snd (main_round rt cs i st))
      then round_prompt (snd (main_round rt cs i st)) else best_prompt st)"
  "round_stop (snd (main_round rt cs i st)) =
     (if best_avg_overlap st < avg_overlap (snd (main_round rt cs i st)) \<and>
         avg_overlap (snd (main_round rt cs i st)) = 1 then Some PerfectOverlap
      else if 5 \<le> round_stagnation (snd (main_round rt cs i st)) then Some Stagnated
      else None)"
  by (simp_all add: main_round_def Let_def split: prod.splits)

lemma main_round_stop_iff:
  assumes "loop_invariant st"
  shows "round_stop (snd (main_round rt cs i st)) \<noteq> None \<longleftrightarrow>
           avg_overlap (snd (main_round rt cs i st)) = 1 \<or>
           round_stagnation (snd (main_round rt cs i st)) = 5"
proof -
  have "round_stagnation (snd (main_round rt cs i st)) \<le> stagnation_count st + 1"
    using generation_step_count [of rt cs i st] by (simp add: main_round_fields(1))
  with assms have le: "round_stagnation (snd (main_round rt cs i st)) \<le> 5"
    by (simp add: loop_invariant_def)
  from assms have "best_avg_overlap st < 1" by (simp add: loop_invariant_def)
  with le show ?thesis
    by (auto simp: main_round_fields(6))
qed

lemma main_round_invariant:
  assumes "loop_invariant st" and "round_stop (snd (main_round rt cs i st)) = None"
  shows "loop_invariant (fst (main_round rt cs i st))"
proof -
  let ?r = "snd (main_round rt cs i st)"
  from assms(2) have a: "\<not> (best_avg_overlap st < avg_overlap ?r \<and> avg_overlap ?r = 1)"
    and b: "\<not> 5 \<le> round_stagnation ?r"
    by (auto simp: main_round_fields(6) split: if_splits)
  from main_round_avg [of rt cs i st] have "avg_overlap ?r \<le> 1" by simp
  with a assms(1) have "best_avg_overlap (fst (main_round rt cs i st)) < 1"
    by (auto simp: main_round_fields(4) loop_invariant_def)
  with b show ?thesis
    by (simp add: loop_invariant_def main_round_fields(2))
qed

lemma main_loop_Suc:
  "main_loop rt cs i (Suc n) st =
     (if round_stop (snd (main_round rt cs i st)) \<noteq> None
      then (fst (main_round rt cs i st), [snd (main_round rt cs i st)])
      else (fst (main_loop rt cs (i + 1) n (fst (main_round rt cs i st))),
            snd (main_round rt cs i st) # snd (main_loop rt cs (i + 1) n (fst (main_round rt cs i st)))))"
  by (simp split: prod.splits)

lemma main_loop_trace:
  "loop_invariant st \<Longrightarrow>
   length (snd (main_loop rt cs i n st)) \<le> n \<and>
   (0 < n \<longrightarrow> snd (main_loop rt cs i n st) \<noteq> []) \<and>
   (\<forall>j < length (snd (main_loop rt cs i n st)).
      round_number (snd (main_loop rt cs i n st) ! j) = i + j + 1 \<and>
      (Suc j = length (snd (main_loop rt cs i n st)) \<longleftrightarrow>
         Suc j = n \<or> avg_overlap (snd (main_loop rt cs i n st) ! j) = 1 \<or>
         round_stagnation (snd (main_loop rt cs i n st) ! j) = 5))"
proof (induction n arbitrary: i st)
  case 0
  then show ?case by simp
next
  case (Suc n)
  let ?r = "snd (main_round rt cs i st)" and ?st = "fst (main_round rt cs i st)"
  show ?case
  proof (cases "round_stop ?r \<noteq> None")
    case True
    then have T: "snd (main_loop rt cs i (Suc n) st) = [?r]"
      by (simp add: main_loop_Suc del: main_loop.simps)
    from True main_round_stop_iff [OF Suc.prems, of rt cs i]
    have "avg_overlap ?r = 1 \<or> round_stagnation ?r = 5" by simp
    then show ?thesis
      unfolding T by (auto simp: main_round_fields(3))
  next
    case False
    let ?T = "snd (main_loop rt cs (i + 1) n ?st)"
    from False have T: "snd (main_loop rt cs i (Suc n) st) = ?r # ?T"
      by (simp add: main_loop_Suc del: main_loop.simps)
    from False have inv: "loop_invariant ?st"
      using main_round_invariant [OF Suc.prems, of rt cs i] by simp
    note IH = Suc.IH [OF inv, of "i + 1"]
    from False main_round_stop_iff [OF Suc.prems, of rt cs i]
    have no: "avg_overlap ?r \<noteq> 1" "round_stagnation ?r \<noteq> 5" by simp_all
    have len: "length ?T \<le> n" and ne: "0 < n \<longrightarrow> ?T \<noteq> []" using IH by simp_all
    have "\<forall>j < length (?r # ?T).
      round_number ((?r # ?T) ! j) = i + j + 1 \<and>
      (Suc j = length (?r # ?T) \<longleftrightarrow>
         Suc j = Suc n \<or> avg_overlap ((?r # ?T) ! j) = 1 \<or>
         round_stagnation ((?r # ?T) ! j) = 5)"
    proof (intro allI impI)
      fix j assume j: "j < length (?r # ?T)"
      show "round_number ((?r # ?T) ! j) = i + j + 1 \<and>
      (Suc j = length (?r # ?T) \<longleftrightarrow>
         Suc j = Suc n \<or> avg_overlap ((?r # ?T) ! j) = 1 \<or>
         round_stagnation ((?r # ?T) ! j) = 5)"
      proof (cases j)
        case 0
        with no ne len show ?thesis by (auto simp: main_round_fields(3))
      next
        case (Suc j')
        with j have "j' < length ?T" by simp
        with IH have "round_number (?T ! j') = i + 1 + j' + 1 \<and>
          (Suc j' = length ?T \<longleftrightarrow> Suc j' = n \<or> avg_overlap (?T ! j') = 1 \<or>
             round_stagnation (?T ! j') = 5)" by blast
        with Suc show ?thesis by simp
      qed
    qed
    with len show ?thesis unfolding T by simp
  qed
qed



lemma evaluate_cases_no_predictions:
  assumes "\<forall>p d c. fst (predict_diseases rt p d c) = []"
  shows "total_files (fst (evaluate_cases rt p cs ev c)) = total_files ev \<and>
         total_overlap (fst (evaluate_cases rt p cs ev c)) = total_overlap ev"
proof (induction cs arbitrary: ev c)
  case Nil
  then show ?case by simp
next
  case (Cons a cs)
  from assms have "fst (predict_diseases rt p (input_data a) c) = []" by blast
  then have "evaluate_cases rt p (a # cs) ev c =
      evaluate_cases rt p cs (ev\<lparr>case_log := case_log ev @ [(case_id a, None)]\<rparr>)
        (snd (predict_diseases rt p (input_data a) c))"
    by (simp add: evaluate_cases_Cons case_score_no_predictions del: evaluate_cases.simps)
  with Cons.IH [of "ev\<lparr>case_log := case_log ev @ [(case_id a, None)]\<rparr>"
      "snd (predict_diseases rt p (input_data a) c)"]
  show ?case by simp
qed

lemma main_round_no_predictions:
  assumes "\<forall>p d c. fst (predict_diseases rt p d c) = []"
  shows "avg_overlap (snd (main_round rt cs i st)) = 0"
proof -
  obtain np count opt' ctx1 where g: "generation_step rt cs i st = (np, count, opt', ctx1)"
    by (cases "generation_step rt cs i st") auto
  let ?ev = "fst (evaluate_cases rt np cs \<lparr>total_overlap = 0, total_files = 0, case_log = []\<rparr> (calls opt'))"
  have avg: "avg_overlap (snd (main_round rt cs i st)) =
     (if 0 < total_files ?ev then total_overlap ?ev / real (total_files ?ev) else 0)"
    by (simp add: main_round_def g Let_def case_prod_beta)
  from evaluate_cases_no_predictions [OF assms, of np cs
      "\<lparr>total_overlap = 0, total_files = 0, case_log = []\<rparr>" "calls opt'"]
  show ?thesis by (simp add: avg)
qed

lemma main_loop_no_predictions:
  assumes "\<forall>p d c. fst (predict_diseases rt p d c) = []"
  shows "best_avg_overlap st = 0 \<Longrightarrow>
         best_avg_overlap (fst (main_loop rt cs i n st)) = 0 \<and>
         best_prompt (fst (main_loop rt cs i n st)) = best_prompt st"
proof (induction n arbitrary: i st)
  case 0
  then show ?case by simp
next
  case (Suc n)
  let ?st = "fst (main_round rt cs i st)"
  from main_round_no_predictions [OF assms, of cs i st] Suc.prems
  have keep: "best_avg_overlap ?st = 0" "best_prompt ?st = best_prompt st"
    by (simp_all add: main_round_fields)
  from Suc.IH [OF keep(1), of "i + 1"] keep show ?case
    by (simp add: main_loop_Suc del: main_loop.simps)
qed

lemma initial_invariant: "loop_invariant initial_state"
  by (simp add: loop_invariant_def initial_state_def)

text \<open>
  C2: the loop always ends, after at least one and at most \<open>max_iterations = 10\<close>
  rounds; the rounds are numbered from 1, and a round is the last one exactly when its
  number is the maximum, its aggregate score is \<open>1\<close> or its stagnation counter is
  \<open>5\<close>.  When every prediction is the empty list, the loop ends with the best score
  \<open>0\<close> and the initial template as the best prompt.
\<close>

theorem main_loop_termination:
  "snd (main rt cs) \<noteq> [] \<and> length (snd (main rt cs)) \<le> max_iterations \<and>
   (\<forall>j < length (snd (main rt cs)).
      round_number (snd (main rt cs) ! j) = j + 1 \<and>
      (Suc j = length (snd (main rt cs)) \<longleftrightarrow>
         round_number (snd (main rt cs) ! j) = max_iterations \<or>
         avg_overlap (snd (main rt cs) ! j) = 1 \<or>
         round_stagnation (snd (main rt cs) ! j) = 5)) \<and>
   ((\<forall>p d c. fst (predict_diseases rt p d c) = []) \<longrightarrow>
      best_avg_overlap (fst (main rt cs)) = 0 \<and>
      best_prompt (fst (main rt cs)) = base_prompt_template)"
proof -
  note tr = main_loop_trace [OF initial_invariant, of rt cs 0 max_iterations]
  have a: "snd (main rt cs) \<noteq> []" "length (snd (main rt cs)) \<le> max_iterations"
    using tr by (simp_all add: main_def max_iterations_def)
  have b: "\<forall>j < length (snd (main rt cs)).
      round_number (snd (main rt cs) ! j) = j + 1 \<and>
      (Suc j = length (snd (main rt cs)) \<longleftrightarrow>
         round_number (snd (main rt cs) ! j) = max_iterations \<or>
         avg_overlap (snd (main rt cs) ! j) = 1 \<or>
         round_stagnation (snd (main rt cs) ! j) = 5)"
    using tr unfolding main_def by auto
  have c: "(\<forall>p d c. fst (predict_diseases rt p d c) = []) \<longrightarrow>
      best_avg_overlap (fst (main rt cs)) = 0 \<and>
      best_prompt (fst (main rt cs)) = base_prompt_template"
  proof
    assume h: "\<forall>p d c. fst (predict_diseases rt p d c) = []"
    have "best_avg_overlap initial_state = 0" by (simp add: initial_state_def)
    from main_loop_no_predictions [OF h this, of cs 0 max_iterations]
    show "best_avg_overlap (fst (main rt cs)) = 0 \<and>
      best_prompt (fst (main rt cs)) = base_prompt_template"
      by (simp add: main_def initial_state_def)
  qed
  from a b c show ?thesis by blast
qed


section \<open>The example run\<close>


lemma take_three_cases:
  "take 3 seven_cases = [example_case 1, example_case 2, example_case 3]"
  by (simp add: seven_cases_def)

lemma analyze_results_example_result:
  "analyze_results example_runtime p (example_case n) c = (Inr (example_result n), c + 4)"
  by (simp add: analyze_results_example example_result_def)

lemma differences_example_result:
  "missed_diagnoses (differences (example_result n)) = {asc ''flu''}"
  "wrong_diagnoses (differences (example_result n)) = {}"
  "accuracy (differences (example_result n)) = 0"
  by (simp_all add: example_result_def)

lemma analyze_three_cases:
  "analyze_cases example_runtime p [example_case 1, example_case 2, example_case 3]
       ([], {}, {}) c
     = (([example_result 1, example_result 2, example_result 3], {asc ''flu''}, {}), c + 12)"
  by (simp add: analyze_results_example_result differences_example_result)

lemma avg_accuracy_example_record: "avg_accuracy (example_record k) = 0"
  by (simp add: avg_accuracy_def example_record_def differences_example_result)

lemma results_example_record: "analysis_results (example_record k) \<noteq> []"
  by (simp add: example_record_def)

lemma history_step:
  "map example_record [1..<k + 1] @ [example_record (k + 1)] = map example_record [1..<k + 2]"
  by simp

lemma feedback_example:
  "build_feedback (k + 1) (map example_record [1..<k + 1]) \<noteq> None"
  by (cases k) (simp_all add: build_feedback_def Let_def results_example_record)

lemma generate_prompt_success:
  assumes "\<not> empty_context ctx" and "context_cases ctx = cases" and "cases \<noteq> []"
    and "build_feedback (context_iteration ctx opt) (optimization_history opt) = Some previous"
    and "ds_generate_prompt rt (context_base_prompt ctx) (context_iteration ctx opt)
           previous (calls opt) = (q, c1)"
    and "q \<noteq> []" and "py_in marker_rules q"
    and "analyze_cases rt q cases ([], {}, {}) c1 = ((results, missed, wrong), c2)"
    and "results \<noteq> []"
  shows "generate_prompt rt ctx opt =
     (q, \<lparr>current_iteration = context_iteration ctx opt,
          optimization_history = optimization_history opt @
            [\<lparr>iteration = context_iteration ctx opt,
              old_prompt = context_base_prompt ctx,
              new_prompt = q,
              analysis_results = results,
              summary = \<lparr>total_cases = length cases,
                         common_missed_diagnoses = missed,
                         common_wrong_diagnoses = wrong\<rparr>\<rparr>],
          calls = c2\<rparr>)"
  using assms by (simp add: generate_prompt_def Let_def)

lemma example_context_simps:
  "\<not> empty_context (example_context k)"
  "context_cases (example_context k) = [example_case 1, example_case 2, example_case 3]"
  "context_iteration (example_context k) opt = k + 1"
  "context_base_prompt (example_context k) = base_prompt_template"
  by (simp_all add: example_context_def empty_context_def context_cases_def
        context_iteration_def context_base_prompt_def take_three_cases)

lemma example_optimizer_simps:
  "optimization_history (example_optimizer k) = map example_record [1..<k + 1]"
  "calls (example_optimizer k) = 34 * k"
  by (simp_all add: example_optimizer_def)

lemma generate_prompt_example:
  "generate_prompt example_runtime (example_context k) (example_optimizer k)
   = (skeleton,
      \<lparr>current_iteration = k + 1,
       optimization_history = map example_record [1..<k + 1] @ [example_record (k + 1)],
       calls = 34 * k + 13\<rparr>)"
proof -
  from feedback_example [of k] obtain previous where
    f: "build_feedback (k + 1) (map example_record [1..<k + 1]) = Some previous" by auto
  have g: "generate_prompt example_runtime (example_context k) (example_optimizer k) =
     (skeleton, \<lparr>current_iteration = context_iteration (example_context k) (example_optimizer k),
          optimization_history = optimization_history (example_optimizer k) @
            [\<lparr>iteration = context_iteration (example_context k) (example_optimizer k),
              old_prompt = context_base_prompt (example_context k),
              new_prompt = skeleton,
              analysis_results = [example_result 1, example_result 2, example_result 3],
              summary = \<lparr>total_cases = length [example_case 1, example_case 2, example_case 3],
                         common_missed_diagnoses = {asc ''flu''},
                         common_wrong_diagnoses = {}\<rparr>\<rparr>],
          calls = 34 * k + 1 + 12\<rparr>)"
  proof (rule generate_prompt_success)
    show "\<not> empty_context (example_context k)" by (rule example_context_simps)
    show "context_cases (example_context k) = [example_case 1, example_case 2, example_case 3]"
      by (rule example_context_simps)
    show "[example_case 1, example_case 2, example_case 3] \<noteq> []" by simp
    show "build_feedback (context_iteration (example_context k) (example_optimizer k))
        (optimization_history (example_optimizer k)) = Some previous"
      unfolding example_context_simps example_optimizer_simps by (rule f)
    show "ds_generate_prompt example_runtime (context_base_prompt (example_context k))
         (context_iteration (example_context k) (example_optimizer k)) previous
         (calls (example_optimizer k)) = (skeleton, 34 * k + 1)"
      unfolding example_optimizer_simps by (rule ds_generate_prompt_example)
    show "skeleton \<noteq> []" by (rule skeleton_not_empty)
    show "py_in marker_rules skeleton" by (rule skeleton_rules)
    show "analyze_cases example_runtime skeleton [example_case 1, example_case 2, example_case 3]
       ([], {}, {}) (34 * k + 1)
      = (([example_result 1, example_result 2, example_result 3], {asc ''flu''}, {}), 34 * k + 1 + 12)"
      by (rule analyze_three_cases)
    show "[example_result 1, example_result 2, example_result 3] \<noteq> []" by simp
  qed
  show ?thesis
    unfolding g example_context_simps example_optimizer_simps
    by (simp add: example_record_def)
qed



lemma trend_flat:
  "trend_status (replicate (Suc m) 0) = (if 2 \<le> m then Stagnating else Unstable)"
proof -
  let ?t = "replicate (Suc m) (0::real)"
  have nth: "?t ! i = 0" if "i < Suc m" for i
    using that by (simp only: nth_replicate)
  have z: "?t ! (length ?t - 1) = 0" "?t ! (length ?t - 2) = 0" "?t ! (length ?t - 3) = 0"
    by (simp_all only: length_replicate nth diff_Suc_less zero_less_Suc)
  have "\<not> is_improving ?t"
    unfolding is_improving_def z by simp
  moreover have "is_stagnating ?t \<longleftrightarrow> 2 \<le> m"
    unfolding is_stagnating_iff z by simp
  ultimately show ?thesis by (simp add: trend_status_def)
qed

lemma trend_example:
  "map avg_accuracy (map example_record [1..<k + 1] @ [example_record (k + 1)])
     = replicate (Suc k) 0"
proof -
  have "map avg_accuracy (map example_record xs) = replicate (length xs) 0" for xs
    by (induction xs) (simp_all add: avg_accuracy_example_record)
  from this [of "[1..<k + 1]"] show ?thesis
    by (simp add: avg_accuracy_example_record replicate_append_same)
qed

lemma status_example:
  "status (evaluate_optimization_progress
     \<lparr>current_iteration = k + 1,
      optimization_history = map example_record [1..<k + 1] @ [example_record (k + 1)],
      calls = c\<rparr>) = (if 2 \<le> k then Stagnating else Unstable)"
proof -
  have "status (evaluate_optimization_progress
     \<lparr>current_iteration = k + 1,
      optimization_history = map example_record [1..<k + 1] @ [example_record (k + 1)],
      calls = c\<rparr>) = trend_status (map avg_accuracy
        (map example_record [1..<k + 1] @ [example_record (k + 1)]))"
    by (rule trans [OF status_nonempty]) simp_all
  then show ?thesis unfolding trend_example trend_flat .
qed

lemma evaluate_example_case:
  "evaluate_cases example_runtime p (example_case n # rest) ev c =
     evaluate_cases example_runtime p rest
       (ev\<lparr>case_log := case_log ev @ [([48 + n], None)]\<rparr>) (c + 3)"
  by (simp add: evaluate_cases_Cons predict_diseases_example case_score_no_predictions
        example_case_def del: evaluate_cases.simps)

lemma evaluate_seven_cases:
  "evaluate_cases example_runtime p seven_cases
       \<lparr>total_overlap = 0, total_files = 0, case_log = []\<rparr> c
     = (\<lparr>total_overlap = 0, total_files = 0,
         case_log = map (\<lambda>n. ([48 + n], None)) [1, 2, 3, 4, 5, 6, 7]\<rparr>, c + 21)"
  by (simp add: seven_cases_def evaluate_example_case del: evaluate_cases.simps(2))


lemma length_seven_cases: "length seven_cases = 7"
  by (simp add: seven_cases_def)

lemma generation_step_example:
  "generation_step example_runtime seven_cases k (example_state k) =
     (skeleton, (k + 1) - 2,
      \<lparr>current_iteration = k + 1,
       optimization_history = map example_record [1..<k + 1] @ [example_record (k + 1)],
       calls = 34 * k + 13\<rparr>,
      \<lparr>ctx_base_prompt = Some base_prompt_template,
       ctx_all_cases =
         Some (take (if 3 \<le> (k + 1) - 2 then min 7 (3 + ((k + 1) - 2)) else 3) seven_cases),
       ctx_iteration = Some (k + 1),
       ctx_previous_results = Some (0, k)\<rparr>)"
proof -
  have ctx: "\<lparr>ctx_base_prompt = Some (best_prompt (example_state k)),
       ctx_all_cases = Some (take 3 seven_cases),
       ctx_iteration = Some (k + 1),
       ctx_previous_results = Some (best_avg_overlap (example_state k), k)\<rparr>
     = example_context k"
    by (simp add: example_context_def example_state_def)
  have opt: "optimizer_obj (example_state k) = example_optimizer k"
    and cnt: "stagnation_count (example_state k) = k - 2"
    by (simp_all add: example_state_def)
  show ?thesis
    unfolding generation_step_def Let_def ctx opt cnt generate_prompt_example prod.case
      status_example length_seven_cases
    by (auto simp: example_context_def)
qed

lemma main_round_example:
  "main_round example_runtime seven_cases k (example_state k) =
     (example_state (k + 1), example_report (k + 1))"
proof -
  have st: "best_prompt (example_state k) = base_prompt_template"
    "best_avg_overlap (example_state k) = 0"
    by (simp_all add: example_state_def)
  show ?thesis
    unfolding main_round_def generation_step_example prod.case
    by (simp add: evaluate_seven_cases st example_state_def example_report_def
          example_optimizer_def)
qed

lemma example_state_0: "example_state 0 = initial_state"
  by (simp add: example_state_def initial_state_def example_optimizer_def new_optimizer_def)

lemma main_loop_example:
  "k \<le> 6 \<Longrightarrow> 7 \<le> k + n \<Longrightarrow>
   main_loop example_runtime seven_cases k n (example_state k) =
     (example_state 7, map example_report [k + 1..<8])"
proof (induction n arbitrary: k)
  case 0
  then show ?case by simp
next
  case (Suc n)
  show ?case
  proof (cases "k = 6")
    case True
    then show ?thesis
      by (simp add: main_round_example example_report_def)
  next
    case False
    with Suc.prems have k: "k + 1 \<le> 6" "7 \<le> (k + 1) + n" by simp_all
    have stop: "round_stop (example_report (k + 1)) = None"
      using k by (simp add: example_report_def)
    have up: "[k + 1..<8] = (k + 1) # [k + 1 + 1..<8]"
      using k by (simp add: upt_conv_Cons)
    have ml: "main_loop example_runtime seven_cases k (Suc n) (example_state k) =
        (example_state 7, example_report (k + 1) # map example_report [k + 1 + 1..<8])"
      using Suc.IH [OF k] stop
      by (simp add: main_loop_Suc main_round_example del: main_loop.simps upt_Suc)
    show ?thesis unfolding ml up by simp
  qed
qed

lemma main_example:
  "main example_runtime seven_cases = (example_state 7, map example_report [1, 2, 3, 4, 5, 6, 7])"
proof -
  have "[0 + 1..<8] = [1, 2, 3, 4, 5, 6, 7::nat]"
    by (simp add: upt_conv_Cons)
  with main_loop_example [of 0 max_iterations] show ?thesis
    by (simp add: main_def example_state_0 [symmetric] max_iterations_def)
qed



theorem main_loop_termination_witness:
  "length (snd (main example_runtime seven_cases)) = 7 \<and>
   round_number (snd (main example_runtime seven_cases) ! 6) = 7 \<and>
   round_stagnation (snd (main example_runtime seven_cases) ! 6) = 5 \<and>
   fst (predict_diseases example_runtime skeleton JNull 0) = [] \<and>
   best_avg_overlap (fst (main example_runtime seven_cases)) = 0 \<and>
   best_prompt (fst (main example_runtime seven_cases)) = base_prompt_template"
proof -
  have len: "length (snd (main example_runtime seven_cases)) = 7"
    by (simp add: main_example)
  have r: "round_stagnation (snd (main example_runtime seven_cases) ! 6) = 5"
    by (simp add: main_example example_report_def)
  have e: "\<forall>p d c. fst (predict_diseases example_runtime p d c) = []"
    by (simp add: predict_diseases_example)
  from main_loop_termination [of example_runtime seven_cases] len e
  have "round_number (snd (main example_runtime seven_cases) ! 6) = 6 + 1"
    and "best_avg_overlap (fst (main example_runtime seven_cases)) = 0 \<and>
      best_prompt (fst (main example_runtime seven_cases)) = base_prompt_template"
    by simp_all
  with len r e show ?thesis by simp
qed

section \<open>A run whose second candidate is invalid\<close>

text \<open>No part of a round but the optimizer client reads the optimizer service.\<close>

lemma standard_output_optimizer_update:
  "standard_output (rt\<lparr>optimizer_service := g\<rparr>) result = standard_output rt result"
  by (simp add: standard_output_def cong: option.case_cong json.case_cong if_cong)

lemma predict_optimizer_update:
  "predict (rt\<lparr>optimizer_service := g\<rparr>) p d c = predict rt p d c"
  by (simp add: predict_def standard_output_optimizer_update Let_def
        cong: option.case_cong sum.case_cong if_cong)

lemma json_decoded_optimizer_update:
  "json_decoded (rt\<lparr>optimizer_service := g\<rparr>) = json_decoded rt"
  by (simp add: json_decoded_def fun_eq_iff)

lemma predict_attempts_optimizer_update:
  "predict_attempts (rt\<lparr>optimizer_service := g\<rparr>) p d n c = predict_attempts rt p d n c"
  by (induction n arbitrary: c)
    (simp_all add: predict_optimizer_update json_decoded_optimizer_update Let_def
       cong: prod.case_cong if_cong)

lemma predict_diseases_optimizer_update:
  "predict_diseases (rt\<lparr>optimizer_service := g\<rparr>) p d c = predict_diseases rt p d c"
  by (simp add: predict_diseases_def predict_attempts_optimizer_update)

lemma analyze_results_optimizer_update:
  "analyze_results (rt\<lparr>optimizer_service := g\<rparr>) p cs c = analyze_results rt p cs c"
  by (simp add: analyze_results_def predict_diseases_optimizer_update ds_analyze_results_def
        Let_def cong: prod.case_cong sum.case_cong)

lemma analyze_cases_optimizer_update:
  "analyze_cases (rt\<lparr>optimizer_service := g\<rparr>) p cases acc c = analyze_cases rt p cases acc c"
proof (induction cases arbitrary: acc c)
  case Nil
  then show ?case by (cases acc) simp
next
  case (Cons cs rest)
  then show ?case
    by (cases acc)
      (auto simp: analyze_results_optimizer_update split: prod.splits sum.splits)
qed

lemma evaluate_cases_optimizer_update:
  "evaluate_cases (rt\<lparr>optimizer_service := g\<rparr>) p cases ev c = evaluate_cases rt p cases ev c"
  by (induction cases arbitrary: ev c)
    (simp_all add: predict_diseases_optimizer_update case_score_def Let_def
       cong: prod.case_cong sum.case_cong if_cong)

lemma fickle_service:
  "optimizer_service fickle_runtime =
     (\<lambda>k base_prompt iter previous. if iter = 1 then Some skeleton else Some (asc ''rules''))"
  by (simp add: fickle_runtime_def)

lemma ds_generate_prompt_fickle:
  "i = 1 \<Longrightarrow> ds_generate_prompt fickle_runtime base i previous c = (skeleton, c + 1)"
  using skeleton_valid
  by (simp add: ds_generate_prompt_def fickle_service make_api_call_Some strip_skeleton
        valid_skeleton_def)

lemma generate_prompt_fickle:
  assumes "k = 0"
  shows "generate_prompt fickle_runtime (example_context k) (example_optimizer k)
   = (skeleton,
      \<lparr>current_iteration = k + 1,
       optimization_history = map example_record [1..<k + 1] @ [example_record (k + 1)],
       calls = 34 * k + 13\<rparr>)"
proof -
  from feedback_example [of k] obtain previous where
    f: "build_feedback (k + 1) (map example_record [1..<k + 1]) = Some previous" by auto
  have g: "generate_prompt fickle_runtime (example_context k) (example_optimizer k) =
     (skeleton, \<lparr>current_iteration = context_iteration (example_context k) (example_optimizer k),
          optimization_history = optimization_history (example_optimizer k) @
            [\<lparr>iteration = context_iteration (example_context k) (example_optimizer k),
              old_prompt = context_base_prompt (example_context k),
              new_prompt = skeleton,
              analysis_results = [example_result 1, example_result 2, example_result 3],
              summary = \<lparr>total_cases = length [example_case 1, example_case 2, example_case 3],
                         common_missed_diagnoses = {asc ''flu''},
                         common_wrong_diagnoses = {}\<rparr>\<rparr>],
          calls = 34 * k + 1 + 12\<rparr>)"
  proof (rule generate_prompt_success)
    show "\<not> empty_context (example_context k)" by (rule example_context_simps)
    show "context_cases (example_context k) = [example_case 1, example_case 2, example_case 3]"
      by (rule example_context_simps)
    show "[example_case 1, example_case 2, example_case 3] \<noteq> []" by simp
    show "build_feedback (context_iteration (example_context k) (example_optimizer k))
        (optimization_history (example_optimizer k)) = Some previous"
      unfolding example_context_simps example_optimizer_simps by (rule f)
    show "ds_generate_prompt fickle_runtime (context_base_prompt (example_context k))
         (context_iteration (example_context k) (example_optimizer k)) previous
         (calls (example_optimizer k)) = (skeleton, 34 * k + 1)"
      unfolding example_optimizer_simps example_context_simps
      by (rule ds_generate_prompt_fickle) (simp add: assms)
    show "skeleton \<noteq> []" by (rule skeleton_not_empty)
    show "py_in marker_rules skeleton" by (rule skeleton_rules)
    show "analyze_cases fickle_runtime skeleton [example_case 1, example_case 2, example_case 3]
       ([], {}, {}) (34 * k + 1)
      = (([example_result 1, example_result 2, example_result 3], {asc ''flu''}, {}), 34 * k + 1 + 12)"
      unfolding fickle_runtime_def analyze_cases_optimizer_update by (rule analyze_three_cases)
    show "[example_result 1, example_result 2, example_result 3] \<noteq> []" by simp
  qed
  show ?thesis
    unfolding g example_context_simps example_optimizer_simps
    by (simp add: example_record_def)
qed

lemma generation_step_fickle:
  assumes "k = 0"
  shows "generation_step fickle_runtime seven_cases k (example_state k) =
     (skeleton, (k + 1) - 2,
      \<lparr>current_iteration = k + 1,
       optimization_history = map example_record [1..<k + 1] @ [example_record (k + 1)],
       calls = 34 * k + 13\<rparr>,
      \<lparr>ctx_base_prompt = Some base_prompt_template,
       ctx_all_cases =
         Some (take (if 3 \<le> (k + 1) - 2 then min 7 (3 + ((k + 1) - 2)) else 3) seven_cases),
       ctx_iteration = Some (k + 1),
       ctx_previous_results = Some (0, k)\<rparr>)"
proof -
  have ctx: "\<lparr>ctx_base_prompt = Some (best_prompt (example_state k)),
       ctx_all_cases = Some (take 3 seven_cases),
       ctx_iteration = Some (k + 1),
       ctx_previous_results = Some (best_avg_overlap (example_state k), k)\<rparr>
     = example_context k"
    by (simp add: example_context_def example_state_def)
  have opt: "optimizer_obj (example_state k) = example_optimizer k"
    and cnt: "stagnation_count (example_state k) = k - 2"
    by (simp_all add: example_state_def)
  show ?thesis
    unfolding generation_step_def Let_def ctx opt cnt generate_prompt_fickle [OF assms] prod.case
      status_example length_seven_cases
    by (auto simp: example_context_def)
qed

lemma main_round_fickle:
  assumes "k = 0"
  shows "main_round fickle_runtime seven_cases k (example_state k) =
     (example_state (k + 1), example_report (k + 1))"
proof -
  have st: "best_prompt (example_state k) = base_prompt_template"
    "best_avg_overlap (example_state k) = 0"
    by (simp_all add: example_state_def)
  have ev: "evaluate_cases fickle_runtime p seven_cases
       \<lparr>total_overlap = 0, total_files = 0, case_log = []\<rparr> c
     = (\<lparr>total_overlap = 0, total_files = 0,
         case_log = map (\<lambda>n. ([48 + n], None)) [1, 2, 3, 4, 5, 6, 7]\<rparr>, c + 21)" for p c
    unfolding fickle_runtime_def evaluate_cases_optimizer_update by (rule evaluate_seven_cases)
  show ?thesis
    unfolding main_round_def generation_step_fickle [OF assms] prod.case
    by (simp add: ev st example_state_def example_report_def example_optimizer_def)
qed

lemma feedback_second_round:
  "build_feedback (1 + 1) (optimization_history (optimizer_obj (example_state 1)))
     = Some (Some example_feedback)"
  by (simp add: build_feedback_def example_state_def example_optimizer_def example_record_def
        example_feedback_def Let_def)

theorem invalid_candidate_rejected_witness:
  "optimizer_service careless_runtime 0 base_prompt_template 1 None = Some (asc ''rules'') \<and>
   \<not> valid_skeleton (py_strip (asc ''rules'')) \<and>
   round_prompt (snd (main_round careless_runtime seven_cases 0 initial_state))
     = base_prompt_template \<and>
   best_prompt (fst (main_round careless_runtime seven_cases 0 initial_state))
     = base_prompt_template \<and>
   optimizer_service fickle_runtime 0 base_prompt_template 1 None = Some skeleton \<and>
   valid_skeleton (py_strip skeleton) \<and>
   main_round fickle_runtime seven_cases 0 initial_state = (example_state 1, example_report 1) \<and>
   round_prompt (example_report 1) = skeleton \<and>
   build_feedback 2 (optimization_history (optimizer_obj (example_state 1)))
     = Some (Some example_feedback) \<and>
   optimizer_service fickle_runtime 34 base_prompt_template 2 (Some example_feedback)
     = Some (asc ''rules'') \<and>
   round_prompt (snd (main_round fickle_runtime seven_cases 1 (example_state 1)))
     = base_prompt_template \<and>
   map fst (round_log (snd (main_round fickle_runtime seven_cases 1 (example_state 1))))
     = map case_id seven_cases \<and>
   best_prompt (fst (main_round fickle_runtime seven_cases 1 (example_state 1)))
     = base_prompt_template"
proof -
  have svc: "optimizer_service careless_runtime = (\<lambda>k base_prompt iter previous. Some (asc ''rules''))"
    by (simp add: careless_runtime_def example_runtime_def)
  have b: "best_prompt initial_state = base_prompt_template"
    "optimization_history (optimizer_obj initial_state) = []"
    by (simp_all add: initial_state_def new_optimizer_def)
  have f1: "build_feedback (0 + 1) [] = Some None"
    by (simp add: build_feedback_def)
  have first: "round_prompt (snd (main_round careless_runtime seven_cases 0 initial_state))
       = base_prompt_template \<and>
     best_prompt (fst (main_round careless_runtime seven_cases 0 initial_state))
       = base_prompt_template"
    using invalid_candidate_rejected [of "py_strip (asc ''rules'')" careless_runtime
        base_prompt_template 1 None 0
        "\<lparr>ctx_base_prompt = None, ctx_all_cases = None, ctx_iteration = None,
          ctx_previous_results = None\<rparr>" new_optimizer None 0 initial_state None seven_cases]
      careless_answer_invalid f1
    by (simp add: svc b make_api_call_Some)
  have s: "best_prompt (example_state 1) = base_prompt_template"
    "calls (optimizer_obj (example_state 1)) = 34"
    by (simp_all add: example_state_def example_optimizer_def)
  have second: "round_prompt (snd (main_round fickle_runtime seven_cases 1 (example_state 1)))
       = base_prompt_template \<and>
     map fst (round_log (snd (main_round fickle_runtime seven_cases 1 (example_state 1))))
       = map case_id seven_cases \<and>
     best_prompt (fst (main_round fickle_runtime seven_cases 1 (example_state 1)))
       = base_prompt_template"
    using invalid_candidate_rejected [of "py_strip (asc ''rules'')" fickle_runtime
        base_prompt_template 2 "Some example_feedback" 34
        "\<lparr>ctx_base_prompt = None, ctx_all_cases = None, ctx_iteration = None,
          ctx_previous_results = None\<rparr>" new_optimizer None 1 "example_state 1"
        "Some example_feedback" seven_cases]
      careless_answer_invalid feedback_second_round s
    by (simp add: fickle_service make_api_call_Some)
  have r1: "main_round fickle_runtime seven_cases 0 initial_state
      = (example_state 1, example_report 1)"
    using main_round_fickle [of 0] by (simp add: example_state_0)
  have f2: "build_feedback 2 (optimization_history (optimizer_obj (example_state 1)))
      = Some (Some example_feedback)"
    using feedback_second_round unfolding one_add_one .
  show ?thesis
    using first second r1 f2 careless_answer_invalid skeleton_valid
    by (simp add: svc fickle_service strip_skeleton example_report_def)
qed

section \<open>The cases of a round\<close>

lemma main_round_history:
  "optimization_history (optimizer_obj (fst (main_round rt cs i st))) =
     optimization_history (snd (generate_prompt rt
       \<lparr>ctx_base_prompt = Some (best_prompt st), ctx_all_cases = Some (take 3 cs),
        ctx_iteration = Some (i + 1), ctx_previous_results = Some (best_avg_overlap st, i)\<rparr>
       (optimizer_obj st)))"
  by (simp add: main_round_def generation_step_def Let_def case_prod_beta)

lemma main_round_generation_cases:
  "optimization_history (optimizer_obj (fst (main_round rt cs i st)))
     = optimization_history (optimizer_obj st) \<or>
   (\<exists>rec. optimization_history (optimizer_obj (fst (main_round rt cs i st)))
            = optimization_history (optimizer_obj st) @ [rec] \<and>
          total_cases (summary rec) = min 3 (length cs))"
proof -
  let ?ctx = "\<lparr>ctx_base_prompt = Some (best_prompt st), ctx_all_cases = Some (take 3 cs),
        ctx_iteration = Some (i + 1), ctx_previous_results = Some (best_avg_overlap st, i)\<rparr>"
  have c: "length (context_cases ?ctx) = min 3 (length cs)"
    by (simp add: context_cases_def min.commute)
  show ?thesis
  proof (cases "generation_fails rt ?ctx (optimizer_obj st)")
    case True
    from generate_prompt_history_fails [OF True] show ?thesis
      by (simp only: main_round_history) simp
  next
    case False
    from generate_prompt_history_succeeds [OF False] c show ?thesis
      by (simp only: main_round_history) auto
  qed
qed

text \<open>
  C1 does not hold on the code.  In every round the evaluation loop runs over all cases,
  and the record a generation appends counts the first three cases (or all, when there
  are fewer), whatever the stagnation counter is: the longer prefix is assigned to the
  context after the prompt was generated, and the next round builds its context anew.
  In the run of \<open>example_runtime\<close> on seven cases, round 5 has the stagnation counter
  \<open>3\<close> and assigns the first six cases to the context; its evaluation covers all seven
  cases, and each of the seven generations of the run worked on three cases.
\<close>

theorem widened_subset_never_used:
  "map fst (round_log (snd (main_round rt cs i st))) = map case_id cs \<and>
   (optimization_history (optimizer_obj (fst (main_round rt cs i st)))
      = optimization_history (optimizer_obj st) \<or>
    (\<exists>rec. optimization_history (optimizer_obj (fst (main_round rt cs i st)))
             = optimization_history (optimizer_obj st) @ [rec] \<and>
           total_cases (summary rec) = min 3 (length cs))) \<and>
   length seven_cases = 7 \<and>
   round_stagnation (snd (main example_runtime seven_cases) ! 4) = 3 \<and>
   ctx_all_cases (round_context (snd (main example_runtime seven_cases) ! 4))
     = Some (take 6 seven_cases) \<and>
   map fst (round_log (snd (main example_runtime seven_cases) ! 4)) = map case_id seven_cases \<and>
   length (round_log (snd (main example_runtime seven_cases) ! 4)) = 7 \<and>
   map (\<lambda>rec. total_cases (summary rec))
     (optimization_history (optimizer_obj (fst (main example_runtime seven_cases))))
     = [3, 3, 3, 3, 3, 3, 3]"
proof -
  have h: "[1..<7 + 1] = [1, 2, 3, 4, 5, 6, 7::nat]"
    by (simp add: upt_conv_Cons)
  have a: "map (\<lambda>rec. total_cases (summary rec))
     (optimization_history (optimizer_obj (fst (main example_runtime seven_cases))))
     = [3, 3, 3, 3, 3, 3, 3]"
    unfolding main_example fst_conv example_state_def example_optimizer_def h
    by (simp add: example_record_def)
  have b: "map fst (round_log (snd (main example_runtime seven_cases) ! 4)) = map case_id seven_cases"
    unfolding main_example snd_conv
    by (simp add: example_report_def seven_cases_def example_case_def)
  have c: "round_stagnation (snd (main example_runtime seven_cases) ! 4) = 3"
    "ctx_all_cases (round_context (snd (main example_runtime seven_cases) ! 4))
       = Some (take 6 seven_cases)"
    "length (round_log (snd (main example_runtime seven_cases) ! 4)) = 7"
    by (simp_all add: main_example example_report_def)
  from main_round_log [of rt cs i st] main_round_generation_cases [of rt cs i st]
    length_seven_cases a b c
  show ?thesis by blast
qed


end
